theory Spec2Isabelle
  imports Complex_Main "HOL-Library.Multiset"
begin

section \<open>Values shared by the functions of \<^verbatim>\<open>mne/proj.py\<close>\<close>

text \<open>
  Exceptions are values. Each constructor is the Python exception class that the source
  raises (or that the interpreter raises for it), with the message it carries.
\<close>

datatype error =
    ValueError string
  | RuntimeError string
  | IndexError string
  | UnboundLocalError string
  | ZeroDivisionError string

text \<open>
  A two-dimensional \<^verbatim>\<open>numpy\<close> array of floats is the list of its rows. Entries are
  real numbers: the arithmetic of the embedding is exact, rounding is not modelled. An
  array with no row is \<open>[]\<close>, so all arrays of shape \<open>(0, n)\<close> are the same value.
\<close>

type_synonym ndarray = "real list list"

definition np_shape :: "ndarray \<Rightarrow> nat \<times> nat" where
  "np_shape A = (length A, case A of [] \<Rightarrow> 0 | r # _ \<Rightarrow> length r)"

definition dotp :: "real list \<Rightarrow> real list \<Rightarrow> real" where
  "dotp u v = sum_list (map2 (*) u v)"

text \<open>
  \<^verbatim>\<open>np.dot(a, b.T)\<close>: entry \<open>(i, j)\<close> is the inner product of row \<open>i\<close> of \<open>a\<close> with row
  \<open>j\<close> of \<open>b\<close>. The source only calls it with \<open>b = a\<close>, where the shapes always agree.
\<close>

definition np_dot_T :: "ndarray \<Rightarrow> ndarray \<Rightarrow> ndarray" where
  "np_dot_T a b = map (\<lambda>r. map (\<lambda>r'. dotp r r') b) a"

text \<open>\<^verbatim>\<open>s + a\<close> for a Python number \<open>s\<close> and an array \<open>a\<close>: the number is added to each entry.\<close>

definition np_scalar_add :: "real \<Rightarrow> ndarray \<Rightarrow> ndarray" where
  "np_scalar_add s a = map (map ((+) s)) a"

text \<open>
  \<^verbatim>\<open>a + b\<close> for two arrays, with the broadcasting rule of \<^verbatim>\<open>numpy\<close>: two extents are
  compatible when they are equal or one of them is 1; the array of extent 1 is repeated.
  Incompatible shapes raise \<^verbatim>\<open>ValueError\<close>.
\<close>

definition bdim :: "nat \<Rightarrow> nat \<Rightarrow> nat option" where
  "bdim m n = (if m = n then Some m else if m = 1 then Some n
               else if n = 1 then Some m else None)"

definition bcast_to :: "nat \<Rightarrow> nat \<Rightarrow> ndarray \<Rightarrow> ndarray" where
  "bcast_to r c a =
     map (\<lambda>row. if length row = c then row else replicate c (hd row))
         (if length a = r then a else replicate r (hd a))"

definition np_add :: "ndarray \<Rightarrow> ndarray \<Rightarrow> error + ndarray" where
  "np_add a b =
     (case (bdim (fst (np_shape a)) (fst (np_shape b)),
            bdim (snd (np_shape a)) (snd (np_shape b))) of
        (Some r, Some c) \<Rightarrow>
          Inr (map2 (map2 (+)) (bcast_to r c a) (bcast_to r c b))
      | _ \<Rightarrow> Inl (ValueError ''operands could not be broadcast together''))"

section \<open>Covariance accumulation: \<^verbatim>\<open>_compute_cov_epochs\<close>\<close>

text \<open>
  The loop of Python's built-in \<^verbatim>\<open>sum\<close> once the accumulator is an array: each
  remaining item is added to it, and the first addition that raises ends the loop.
\<close>

fun py_sum_from :: "ndarray \<Rightarrow> ndarray list \<Rightarrow> error + ndarray" where
  "py_sum_from acc [] = Inr acc"
| "py_sum_from acc (d # ds) =
     (case np_add acc d of Inl e \<Rightarrow> Inl e | Inr acc' \<Rightarrow> py_sum_from acc' ds)"

text \<open>
  Modelled from the spec: \<^verbatim>\<open>parallel_func\<close> of \<^verbatim>\<open>mne/parallel.py\<close> is not in the
  source at hand. The spec's parallel executor, "given a pure function and an iterable of
  independent inputs, returns the ordered list of outputs", whatever the number of jobs.
\<close>

definition parallel :: "int \<Rightarrow> ('a \<Rightarrow> 'b) \<Rightarrow> 'a list \<Rightarrow> 'b list" where
  "parallel n_jobs p_fun xs = map p_fun xs"

text \<open>
  \<^verbatim>\<open>_compute_cov_epochs(epochs, n_jobs)\<close>. The argument \<open>epochs\<close> is the list of
  segments that iterating over the \<^verbatim>\<open>Epochs\<close> object yields. \<^verbatim>\<open>_check_n_samples\<close> of
  \<^verbatim>\<open>mne/cov.py\<close> is not in the source at hand: it is the parameter \<open>check_n_samples\<close>,
  which returns the exception it raises, if any. The shape of the first segment is read as
  \<open>np_shape\<close> gives it. \<^verbatim>\<open>sum(data)\<close> starts from the integer 0.
\<close>

definition compute_cov_epochs ::
  "(nat \<Rightarrow> nat \<Rightarrow> error option) \<Rightarrow> ndarray list \<Rightarrow> int \<Rightarrow> error + ndarray" where
  "compute_cov_epochs check_n_samples epochs n_jobs =
     (let data = parallel n_jobs (\<lambda>e. np_dot_T e e) epochs;
          n_epochs = length data
      in if n_epochs = 0 then Inl (RuntimeError ''No good epochs found'')
         else
           let (n_chan, n_samples) = np_shape (hd epochs)
           in case check_n_samples (n_samples * n_epochs) n_chan of
                Some e \<Rightarrow> Inl e
              | None \<Rightarrow> py_sum_from (np_scalar_add 0 (hd data)) (tl data))"

text \<open>
  The covariance matrix in the spec's words: the sum of the per-segment outer products
  \<open>X\<^sub>i \<cdot> X\<^sub>i\<^sup>T\<close>, entry by entry, for segments of \<open>n\<close> channels.
\<close>

definition outer_product_sum :: "nat \<Rightarrow> ndarray list \<Rightarrow> ndarray" where
  "outer_product_sum n epochs =
     map (\<lambda>i. map (\<lambda>j. sum_list (map (\<lambda>X. dotp (X ! i) (X ! j)) epochs)) [0..<n]) [0..<n]"

definition same_shape :: "nat \<Rightarrow> nat \<Rightarrow> ndarray list \<Rightarrow> bool" where
  "same_shape n m epochs =
     list_all (\<lambda>X. length X = n \<and> list_all (\<lambda>r. length r = m) X) epochs"

text \<open>
  Modelled from the spec: \<^verbatim>\<open>_check_n_samples\<close> of \<^verbatim>\<open>mne/cov.py\<close> is not in the source
  at hand. In the spec, the "total sample count across segments must exceed the channel
  count", and the accumulation "fails with a too few samples error" otherwise. It stands for
  the parameter \<open>check_n_samples\<close> where a concrete one is needed.
\<close>

definition check_n_samples_spec :: "nat \<Rightarrow> nat \<Rightarrow> error option" where
  "check_n_samples_spec n_samples n_chan =
     (if n_samples \<le> n_chan then Some (ValueError ''Too few samples'') else None)"

section \<open>Projection basis estimation: \<^verbatim>\<open>_compute_proj\<close>\<close>

text \<open>
  The measurement info, as far as \<^verbatim>\<open>proj.py\<close> and its collaborators read it: the channel
  names, the type of each channel and the names of the bad channels.
\<close>

datatype ch_kind = GradCh | MagCh | EegCh | OtherCh

record info =
  ch_names :: "string list"
  ch_kinds :: "ch_kind list"
  bads :: "string list"

text \<open>The \<^verbatim>\<open>meg\<close> argument of the pick functions: \<^verbatim>\<open>False\<close>, \<^verbatim>\<open>True\<close> or a type name.\<close>

datatype meg_sel = MegFalse | MegTrue | MegType string

text \<open>
  The dictionary \<^verbatim>\<open>proj_data\<close> and the \<^verbatim>\<open>Projection\<close> built from it. The key
  \<^verbatim>\<open>data\<close> of a \<^verbatim>\<open>Projection\<close> is the field \<open>pdata\<close>; \<^verbatim>\<open>row_names=None\<close> is \<open>None\<close>.
\<close>

record proj_data =
  col_names :: "string list"
  row_names :: "string list option"
  data :: ndarray
  nrow :: nat
  ncol :: nat

record projection =
  active :: bool
  pdata :: proj_data
  desc :: string
  kind :: int

text \<open>\<^verbatim>\<open>"%02d" % n\<close> for a natural number: decimal digits, padded with a zero to two.\<close>

fun py_str_nat :: "nat \<Rightarrow> string" where
  "py_str_nat n =
     (if n < 10 then [''0123456789'' ! n]
      else py_str_nat (n div 10) @ [''0123456789'' ! (n mod 10)])"

definition fmt_02d :: "nat \<Rightarrow> string" where
  "fmt_02d n = (if n < 10 then CHR ''0'' # py_str_nat n else py_str_nat n)"

text \<open>\<^verbatim>\<open>"%s-%s-PCA-%02d" % (desc, desc_prefix, k + 1)\<close>\<close>

definition this_desc :: "string \<Rightarrow> string \<Rightarrow> nat \<Rightarrow> string" where
  "this_desc dsc desc_prefix k = dsc @ ''-'' @ desc_prefix @ ''-PCA-'' @ fmt_02d (k + 1)"

text \<open>
  The slice \<^verbatim>\<open>xs[:n]\<close> for a Python integer \<open>n\<close>: a negative \<open>n\<close> counts from the end.
\<close>

definition py_take :: "int \<Rightarrow> 'a list \<Rightarrow> 'a list" where
  "py_take n xs = (if 0 \<le> n then take (nat n) xs else take (length xs - nat (- n)) xs)"

text \<open>The transpose \<^verbatim>\<open>a.T\<close>: row \<open>j\<close> of the result is column \<open>j\<close> of \<open>a\<close>.\<close>

definition np_T :: "ndarray \<Rightarrow> ndarray" where
  "np_T a = (case a of [] \<Rightarrow> [] | r # _ \<Rightarrow> map (\<lambda>j. map (\<lambda>row. row ! j) a) [0..<length r])"

text \<open>
  Indexing with an index array: \<^verbatim>\<open>a[ind]\<close> takes rows, \<^verbatim>\<open>a[:, ind]\<close> takes columns,
  \<^verbatim>\<open>[xs[k] for k in ind]\<close> takes items of a list. An index past the end raises
  \<^verbatim>\<open>IndexError\<close>.
\<close>

definition take_rows :: "ndarray \<Rightarrow> nat list \<Rightarrow> error + ndarray" where
  "take_rows a ind =
     (if list_all (\<lambda>i. i < length a) ind then Inr (map ((!) a) ind)
      else Inl (IndexError ''index out of bounds''))"

definition take_cols :: "ndarray \<Rightarrow> nat list \<Rightarrow> error + ndarray" where
  "take_cols a ind =
     (if list_all (\<lambda>j. j < snd (np_shape a)) ind then Inr (map (\<lambda>row. map ((!) row) ind) a)
      else Inl (IndexError ''index out of bounds''))"

definition take_items :: "'a list \<Rightarrow> nat list \<Rightarrow> error + 'a list" where
  "take_items xs ind =
     (if list_all (\<lambda>k. k < length xs) ind then Inr (map ((!) xs) ind)
      else Inl (IndexError ''list index out of range''))"

text \<open>
  Lines 84 to 87: \<^verbatim>\<open>data[ind][:, ind]\<close>, its singular value decomposition, the first \<open>n\<close>
  columns of \<open>U\<close>, and the rows of \<^verbatim>\<open>U.T\<close> that the inner loop enumerates. \<^verbatim>\<open>linalg.svd\<close>
  is \<^verbatim>\<open>scipy\<close>'s: the parameter \<open>svd_U\<close> is the factor \<open>U\<close> it returns.
\<close>

definition group_vectors ::
  "(ndarray \<Rightarrow> ndarray) \<Rightarrow> ndarray \<Rightarrow> nat list \<Rightarrow> int \<Rightarrow> error + real list list" where
  "group_vectors svd_U data_cov ind n =
     (case take_rows data_cov ind of
        Inl e \<Rightarrow> Inl e
      | Inr rows \<Rightarrow>
          (case take_cols rows ind of
             Inl e \<Rightarrow> Inl e
           | Inr data_ind \<Rightarrow> Inr (np_T (map (py_take n) (svd_U data_ind)))))"

text \<open>Lines 88 to 92: the projection built from the vector \<open>u\<close> of index \<open>k\<close>.\<close>

definition mk_proj :: "string list \<Rightarrow> string \<Rightarrow> string \<Rightarrow> nat \<Rightarrow> real list \<Rightarrow> projection" where
  "mk_proj names dsc desc_prefix k u =
     \<lparr>active = False,
      pdata = \<lparr>col_names = names, row_names = None, data = [u], nrow = 1, ncol = length u\<rparr>,
      desc = this_desc dsc desc_prefix k,
      kind = 1\<rparr>"

text \<open>
  One pass of the loop over the groups (lines 82 to 93): the lines it logs, and the
  projections it appends or the exception that ends the call.
\<close>

definition group_projs ::
  "(ndarray \<Rightarrow> ndarray) \<Rightarrow> ndarray \<Rightarrow> string \<Rightarrow> int \<times> nat list \<times> string list \<times> string
   \<Rightarrow> string list \<times> (error + projection list)" where
  "group_projs svd_U data_cov desc_prefix g =
     (case g of (n, ind, names, dsc) \<Rightarrow>
        if n = 0 then ([], Inr [])
        else
          (case group_vectors svd_U data_cov ind n of
             Inl e \<Rightarrow> ([], Inl e)
           | Inr vs \<Rightarrow>
               (map (\<lambda>(k, u). ''Adding projection: '' @ this_desc dsc desc_prefix k)
                    (enumerate 0 vs),
                Inr (map (\<lambda>(k, u). mk_proj names dsc desc_prefix k u) (enumerate 0 vs)))))"

fun proj_loop ::
  "(ndarray \<Rightarrow> ndarray) \<Rightarrow> ndarray \<Rightarrow> string \<Rightarrow> (int \<times> nat list \<times> string list \<times> string) list
   \<Rightarrow> projection list \<Rightarrow> string list \<times> (error + projection list)" where
  "proj_loop svd_U data_cov desc_prefix [] projs = ([], Inr projs)"
| "proj_loop svd_U data_cov desc_prefix (g # gs) projs =
     (case group_projs svd_U data_cov desc_prefix g of
        (lg, Inl e) \<Rightarrow> (lg, Inl e)
      | (lg, Inr ps) \<Rightarrow>
          (case proj_loop svd_U data_cov desc_prefix gs (projs @ ps) of
             (lg', r) \<Rightarrow> (lg @ lg', r)))"

text \<open>
  Lines 63 to 71, one block per group: a positive rank asked of a group with no channel is
  logged and forced to 0. The result is the lines logged and the rank to use.
\<close>

definition force_rank :: "int \<Rightarrow> nat list \<Rightarrow> string \<Rightarrow> string list \<times> int" where
  "force_rank n ind msg = (if 0 < n \<and> length ind = 0 then ([msg], 0) else ([], n))"

text \<open>
  \<^verbatim>\<open>_compute_proj(data, info, n_grad, n_mag, n_eeg, desc_prefix)\<close>. \<^verbatim>\<open>pick_types\<close> of
  \<^verbatim>\<open>mne/fiff/pick.py\<close> is not in the source at hand: it is the parameter \<open>pick_types\<close>,
  called with \<^verbatim>\<open>exclude='bads'\<close> each time. The result pairs the lines sent to the logger
  with the returned list or the exception raised.
\<close>

definition compute_proj ::
  "(info \<Rightarrow> meg_sel \<Rightarrow> bool \<Rightarrow> nat list) \<Rightarrow> (ndarray \<Rightarrow> ndarray) \<Rightarrow> ndarray \<Rightarrow> info
   \<Rightarrow> int \<Rightarrow> int \<Rightarrow> int \<Rightarrow> string \<Rightarrow> string list \<times> (error + projection list)" where
  "compute_proj pick_types svd_U data_cov nfo n_grad n_mag n_eeg desc_prefix =
     (let mag_ind = pick_types nfo (MegType ''mag'') False;
          grad_ind = pick_types nfo (MegType ''grad'') False;
          eeg_ind = pick_types nfo MegFalse True;
          f_grad = force_rank n_grad grad_ind ''No gradiometers found. Forcing n_grad to 0'';
          f_mag = force_rank n_mag mag_ind ''No magnetometers found. Forcing n_mag to 0'';
          f_eeg = force_rank n_eeg eeg_ind ''No EEG channels found. Forcing n_eeg to 0'';
          lg0 = fst f_grad @ fst f_mag @ fst f_eeg
      in case take_items (ch_names nfo) grad_ind of
           Inl e \<Rightarrow> (lg0, Inl e)
         | Inr grad_names \<Rightarrow>
         (case take_items (ch_names nfo) mag_ind of
           Inl e \<Rightarrow> (lg0, Inl e)
         | Inr mag_names \<Rightarrow>
         (case take_items (ch_names nfo) eeg_ind of
           Inl e \<Rightarrow> (lg0, Inl e)
         | Inr eeg_names \<Rightarrow>
         (case proj_loop svd_U data_cov desc_prefix
                 [(snd f_grad, grad_ind, grad_names, ''planar''),
                  (snd f_mag, mag_ind, mag_names, ''axial''),
                  (snd f_eeg, eeg_ind, eeg_names, ''eeg'')] [] of
            (lg, r) \<Rightarrow> (lg0 @ lg, r)))))"

text \<open>
  Modelled from the spec: \<^verbatim>\<open>pick_types\<close> with \<^verbatim>\<open>exclude='bads'\<close>. The spec's channel
  grouper gives "index groups for gradiometer, magnetometer, and reference-free EEG
  channels, each already excluding bad channels". It stands for the parameter
  \<open>pick_types\<close> where a concrete one is needed.
\<close>

definition kind_selected :: "meg_sel \<Rightarrow> bool \<Rightarrow> ch_kind \<Rightarrow> bool" where
  "kind_selected meg eeg k =
     (case k of
        GradCh \<Rightarrow> meg = MegTrue \<or> meg = MegType ''grad''
      | MagCh \<Rightarrow> meg = MegTrue \<or> meg = MegType ''mag''
      | EegCh \<Rightarrow> eeg
      | OtherCh \<Rightarrow> False)"

definition pick_types_spec :: "info \<Rightarrow> meg_sel \<Rightarrow> bool \<Rightarrow> nat list" where
  "pick_types_spec nfo meg eeg =
     map fst (filter (\<lambda>(k, nm, kd). kind_selected meg eeg kd \<and> nm \<notin> set (bads nfo))
                     (enumerate 0 (zip (ch_names nfo) (ch_kinds nfo))))"

text \<open>
  The factor \<open>U\<close> of a diagonal matrix whose diagonal is non-negative and descending: the
  identity matrix. It stands for the parameter \<open>svd_U\<close> at such matrices.
\<close>

definition svd_U_diag :: "ndarray \<Rightarrow> ndarray" where
  "svd_U_diag a =
     map (\<lambda>i. map (\<lambda>j. if i = j then 1 else 0) [0..<length a]) [0..<length a]"

text \<open>
  What the spec says of the returned list, with the label of each group left open: the
  vectors of a group are inactive and carry the descriptors
  \<open>label-prefix-PCA-01\<close>, \<open>label-prefix-PCA-02\<close>, ... in this order.
\<close>

definition group_block :: "string \<Rightarrow> string \<Rightarrow> projection list \<Rightarrow> bool" where
  "group_block label desc_prefix ps =
     list_all (\<lambda>(k, p). \<not> active p \<and>
                 desc p = label @ ''-'' @ desc_prefix @ ''-PCA-'' @ fmt_02d (k + 1))
              (enumerate 0 ps)"

text \<open>The vector of a projection, and orthonormality of a list of vectors.\<close>

definition proj_vector :: "projection \<Rightarrow> real list" where
  "proj_vector p = hd (data (pdata p))"

definition orthonormal :: "real list list \<Rightarrow> bool" where
  "orthonormal vs =
     list_all (\<lambda>i. list_all (\<lambda>j. dotp (vs ! i) (vs ! j) = (if i = j then 1 else 0))
                             [0..<length vs]) [0..<length vs]"

text \<open>
  The singular value decomposition in the spec's words, for a square matrix \<open>a\<close> of size
  \<open>m\<close>: \<open>a = U \<cdot> diag(s) \<cdot> Vh\<close>, where the columns of \<open>U\<close> (the left singular vectors) are
  orthonormal, the rows of \<open>Vh\<close> are orthonormal, and the singular values \<open>s\<close> are not
  negative and in descending order, so that column \<open>k\<close> of \<open>U\<close> belongs to the \<open>k\<close>-th
  largest singular value.
\<close>

definition is_svd :: "ndarray \<Rightarrow> ndarray \<Rightarrow> real list \<Rightarrow> ndarray \<Rightarrow> bool" where
  "is_svd a U s Vh =
     (length U = length a \<and> list_all (\<lambda>r. length r = length a) U
      \<and> length s = length a
      \<and> length Vh = length a \<and> list_all (\<lambda>r. length r = length a) Vh
      \<and> orthonormal (np_T U) \<and> orthonormal Vh
      \<and> list_all (\<lambda>x. 0 \<le> x) s \<and> sorted (rev s)
      \<and> a = map (\<lambda>i. map (\<lambda>j. sum_list (map (\<lambda>k. U ! i ! k * s ! k * Vh ! k ! j)
                                               [0..<length a]))
                         [0..<length a])
                 [0..<length a])"

text \<open>
  The number of vectors that a rank \<open>n\<close> keeps of \<open>m\<close>: the \<open>n\<close> leading ones, and no more
  than there are; a negative rank leaves out that many trailing ones.
\<close>

definition kept :: "int \<Rightarrow> nat \<Rightarrow> nat" where
  "kept n m = (if 0 \<le> n then min (nat n) m else m - nat (- n))"

text \<open>
  No decomposition is computed for a group whose rank is zero or is forced to zero.
\<close>

definition no_rank :: "int \<Rightarrow> nat list \<Rightarrow> bool" where
  "no_rank n ind = (n = 0 \<or> (0 < n \<and> ind = []))"

text \<open>
  The contract of \<^verbatim>\<open>linalg.svd\<close> that the estimation relies on, for the group with the
  indices \<open>ind\<close> and the requested rank \<open>n\<close>: where the function decomposes the principal
  submatrix of the covariance matrix, the factor \<open>svd_U\<close> that it uses is the factor \<open>U\<close>
  of a singular value decomposition, with \<open>svd_s\<close> and \<open>svd_Vh\<close> the other two results of
  \<^verbatim>\<open>linalg.svd\<close>.
\<close>

definition svd_holds_on ::
  "(ndarray \<Rightarrow> ndarray) \<Rightarrow> (ndarray \<Rightarrow> real list) \<Rightarrow> (ndarray \<Rightarrow> ndarray)
   \<Rightarrow> ndarray \<Rightarrow> nat list \<Rightarrow> int \<Rightarrow> bool" where
  "svd_holds_on svd_U svd_s svd_Vh data_cov ind n =
     (if no_rank n ind then True
      else
        (case take_rows data_cov ind of
           Inl e \<Rightarrow> True
         | Inr rows \<Rightarrow>
             (case take_cols rows ind of
                Inl e \<Rightarrow> True
              | Inr data_ind \<Rightarrow>
                  is_svd data_ind (svd_U data_ind) (svd_s data_ind) (svd_Vh data_ind))))"

text \<open>
  What the spec says of the vectors \<open>vs\<close> of a group with the indices \<open>ind\<close> and the
  requested rank \<open>n\<close>: they are the \<open>n\<close> leading left singular vectors of the principal
  submatrix of the covariance matrix, in the order of descending singular values; and there
  is none when the rank is zero or forced to zero.
\<close>

definition leading_singular_vectors ::
  "(ndarray \<Rightarrow> ndarray) \<Rightarrow> (ndarray \<Rightarrow> real list) \<Rightarrow> (ndarray \<Rightarrow> ndarray)
   \<Rightarrow> ndarray \<Rightarrow> nat list \<Rightarrow> int \<Rightarrow> real list list \<Rightarrow> bool" where
  "leading_singular_vectors svd_U svd_s svd_Vh data_cov ind n vs =
     (if no_rank n ind then vs = []
      else
        (case take_rows data_cov ind of
           Inl e \<Rightarrow> False
         | Inr rows \<Rightarrow>
             (case take_cols rows ind of
                Inl e \<Rightarrow> False
              | Inr data_ind \<Rightarrow>
                  is_svd data_ind (svd_U data_ind) (svd_s data_ind) (svd_Vh data_ind)
                  \<and> length vs = kept n (length ind)
                  \<and> vs = take (kept n (length ind)) (np_T (svd_U data_ind)))))"

text \<open>
  The singular values and the factor \<open>Vh\<close> of a diagonal matrix whose diagonal is
  non-negative and descending: the diagonal and the identity matrix. With \<open>svd_U_diag\<close>
  they are the three results of \<^verbatim>\<open>linalg.svd\<close> at such matrices.
\<close>

definition svd_s_diag :: "ndarray \<Rightarrow> real list" where
  "svd_s_diag a = map (\<lambda>i. a ! i ! i) [0..<length a]"

definition svd_Vh_diag :: "ndarray \<Rightarrow> ndarray" where
  "svd_Vh_diag a = svd_U_diag a"

text \<open>
  A measurement info with two gradiometers and three EEG channels, and a diagonal
  covariance matrix whose diagonal descends within each of the two groups.
\<close>

definition info5 :: info where
  "info5 = \<lparr>ch_names = [''MEG 0112'', ''MEG 0113'', ''EEG 001'', ''EEG 002'', ''EEG 003''],
            ch_kinds = [GradCh, GradCh, EegCh, EegCh, EegCh], bads = []\<rparr>"

definition cov5 :: ndarray where
  "cov5 = [[4, 0, 0, 0, 0], [0, 3, 0, 0, 0], [0, 0, 5, 0, 0], [0, 0, 0, 2, 0], [0, 0, 0, 0, 1]]"

section \<open>Sensitivity maps: \<^verbatim>\<open>sensitivity_map\<close>\<close>

subsection \<open>Floating-point results\<close>

text \<open>
  The entries of the map are \<^verbatim>\<open>float64\<close> numbers. Division by zero does not raise in
  \<^verbatim>\<open>numpy\<close>: it gives an infinity or a NaN. A float is therefore a real number or one of
  the three special values; the arithmetic on real numbers is exact and the sign of a zero
  divisor is taken as positive.
\<close>

datatype npfloat = Fin real | PInf | NInf | NaN

fun np_truediv :: "npfloat \<Rightarrow> npfloat \<Rightarrow> npfloat" where
  "np_truediv NaN y = NaN"
| "np_truediv x NaN = NaN"
| "np_truediv (Fin a) (Fin b) =
     (if b \<noteq> 0 then Fin (a / b) else if a = 0 then NaN else if 0 < a then PInf else NInf)"
| "np_truediv (Fin a) y = Fin 0"
| "np_truediv PInf (Fin b) = (if 0 \<le> b then PInf else NInf)"
| "np_truediv NInf (Fin b) = (if 0 \<le> b then NInf else PInf)"
| "np_truediv x y = NaN"

fun np_sub :: "npfloat \<Rightarrow> npfloat \<Rightarrow> npfloat" where
  "np_sub NaN y = NaN"
| "np_sub x NaN = NaN"
| "np_sub (Fin a) (Fin b) = Fin (a - b)"
| "np_sub (Fin a) PInf = NInf"
| "np_sub (Fin a) NInf = PInf"
| "np_sub PInf PInf = NaN"
| "np_sub NInf NInf = NaN"
| "np_sub PInf y = PInf"
| "np_sub NInf y = NInf"

fun np_max2 :: "npfloat \<Rightarrow> npfloat \<Rightarrow> npfloat" where
  "np_max2 NaN y = NaN"
| "np_max2 x NaN = NaN"
| "np_max2 PInf y = PInf"
| "np_max2 x PInf = PInf"
| "np_max2 NInf y = y"
| "np_max2 x NInf = x"
| "np_max2 (Fin a) (Fin b) = Fin (max a b)"

text \<open>\<^verbatim>\<open>np.max\<close> of a one-dimensional array: an empty array raises \<^verbatim>\<open>ValueError\<close>.\<close>

definition np_max :: "npfloat list \<Rightarrow> error + npfloat" where
  "np_max xs =
     (case xs of
        [] \<Rightarrow> Inl (ValueError ''zero-size array to reduction operation maximum which has no identity'')
      | x # rest \<Rightarrow> Inr (foldl np_max2 x rest))"

text \<open>
  \<^verbatim>\<open>linalg.norm\<close> of a vector: the Euclidean norm. \<^verbatim>\<open>scipy\<close> returns it as a Python
  float, not as a \<^verbatim>\<open>numpy\<close> scalar.
\<close>

definition linalg_norm :: "real list \<Rightarrow> real" where
  "linalg_norm v = sqrt (dotp v v)"

text \<open>
  \<^verbatim>\<open>a / b\<close> for two Python floats: a zero divisor raises \<^verbatim>\<open>ZeroDivisionError\<close>. The
  quotient \<^verbatim>\<open>gz / s[0]\<close> of a Python float by a \<^verbatim>\<open>numpy\<close> scalar is computed by
  \<^verbatim>\<open>numpy\<close> and is \<open>np_truediv\<close>.
\<close>

definition py_float_div :: "real \<Rightarrow> real \<Rightarrow> error + real" where
  "py_float_div a b =
     (if b = 0 then Inl (ZeroDivisionError ''float division by zero'') else Inr (a / b))"

subsection \<open>The forward model and the collaborators\<close>

text \<open>
  The forward dictionary, as far as the function and its collaborators read it. The gain
  array \<^verbatim>\<open>fwd['sol']['data']\<close> (sensors by dipoles) is the list of its columns:
  \<^verbatim>\<open>gain[:, j]\<close> is \<open>sol_data fwd ! j\<close>, and \<^verbatim>\<open>gain.shape[1]\<close> is the length of the list.
  \<open>src_vertno\<close> lists \<^verbatim>\<open>fwd['src'][i]['vertno']\<close> for each source space \<open>i\<close>.
\<close>

record forward =
  surf_ori :: bool
  source_ori :: int
  sol_data :: "real list list"
  sol_row_names :: "string list"
  fwd_info :: info
  src_vertno :: "nat list list"
  src_subject :: "string option"

text \<open>The \<^verbatim>\<open>exclude\<close> argument: a list of channel names or the string \<^verbatim>\<open>'bads'\<close>.\<close>

datatype exclude_arg = ExcludeList "string list" | ExcludeBads

text \<open>
  The functions and the constant that \<^verbatim>\<open>proj.py\<close> imports from other modules and that
  \<^verbatim>\<open>sensitivity_map\<close> uses. They are not in the source at hand, so they are parameters,
  gathered in one record. A collaborator that can raise returns a sum. \<open>linalg_svd_s\<close> is
  \<^verbatim>\<open>linalg.svd(gg, full_matrices=False, compute_uv=False)\<close> of \<^verbatim>\<open>scipy\<close>, on the three
  columns of \<open>gg\<close>. The collaborators read the lists they are given and change nothing.
\<close>

record env =
  FIFFV_MNE_PROJ_ITEM_EEG_AVREF :: int
  is_fixed_orient :: "forward \<Rightarrow> bool"
  pick_types_forward :: "forward \<Rightarrow> meg_sel \<Rightarrow> bool \<Rightarrow> exclude_arg \<Rightarrow> error + forward"
  make_eeg_average_ref_proj :: "info \<Rightarrow> error + projection"
  make_projector ::
    "projection list \<Rightarrow> string list \<Rightarrow> bool \<Rightarrow> error + (ndarray \<times> nat \<times> ndarray)"
  linalg_svd_s :: "real list list \<Rightarrow> real list"
  subject_from_forward :: "forward \<Rightarrow> string option"

text \<open>
  The \<^verbatim>\<open>SourceEstimate\<close> that is returned: the constructor stores its arguments. The data
  \<^verbatim>\<open>sensitivity_map[:, np.newaxis]\<close> has one row of one entry per location.
\<close>

record source_estimate =
  stc_data :: "npfloat list list"
  vertices :: "nat list list"
  tmin :: real
  tstep :: real
  subject :: "string option"

text \<open>
  Python lists are objects: the caller and the function may hold the same list. The store
  maps an address to the list it holds; a new list gets the next address.
\<close>

type_synonym store = "projection list list"

definition alloc :: "store \<Rightarrow> projection list \<Rightarrow> store \<times> nat" where
  "alloc h xs = (h @ [xs], length h)"

subsection \<open>The products of arrays that the function takes\<close>

text \<open>
  \<^verbatim>\<open>np.dot(proj, v)\<close> for a matrix and a vector, \<^verbatim>\<open>np.dot(v, U)\<close> for a vector and a
  matrix, and \<^verbatim>\<open>np.dot(proj, gain)\<close> column by column. Shapes that do not agree raise
  \<^verbatim>\<open>ValueError\<close>.
\<close>

definition np_dot_mv :: "ndarray \<Rightarrow> real list \<Rightarrow> error + real list" where
  "np_dot_mv a v =
     (if list_all (\<lambda>r. length r = length v) a then Inr (map (\<lambda>r. dotp r v) a)
      else Inl (ValueError ''matrices are not aligned''))"

definition np_dot_vm :: "real list \<Rightarrow> ndarray \<Rightarrow> error + real list" where
  "np_dot_vm v a =
     (if length a = length v then Inr (map (\<lambda>c. dotp v c) (np_T a))
      else Inl (ValueError ''matrices are not aligned''))"

definition np_dot_cols :: "ndarray \<Rightarrow> real list list \<Rightarrow> error + real list list" where
  "np_dot_cols a cols =
     (if list_all (\<lambda>c. list_all (\<lambda>r. length r = length c) a) cols
      then Inr (map (\<lambda>c. map (\<lambda>r. dotp r c) a) cols)
      else Inl (ValueError ''matrices are not aligned''))"

text \<open>A loop that fills a list item by item and stops at the first exception.\<close>

fun map_err :: "('a \<Rightarrow> error + 'b) \<Rightarrow> 'a list \<Rightarrow> error + 'b list" where
  "map_err f [] = Inr []"
| "map_err f (x # xs) =
     (case f x of
        Inl e \<Rightarrow> Inl e
      | Inr y \<Rightarrow> (case map_err f xs of Inl e \<Rightarrow> Inl e | Inr ys \<Rightarrow> Inr (y # ys)))"

subsection \<open>The function, block by block\<close>

text \<open>Lines 275 to 281, "check strings".\<close>

definition check_strings :: "string \<Rightarrow> string \<Rightarrow> error option" where
  "check_strings ch_type mode =
     (if ch_type \<notin> set [''eeg'', ''grad'', ''mag'']
      then Some (ValueError (''ch_type should be 'eeg', 'mag' or 'grad (got '' @ ch_type @ '')''))
      else if mode \<notin> set [''free'', ''fixed'', ''ratio'', ''radiality'', ''angle'',
                            ''remaining'', ''dampening'']
      then Some (ValueError (''Unknown mode type (got '' @ mode @ '')''))
      else None)"

text \<open>Lines 283 to 287, "check forward".\<close>

definition check_forward :: "env \<Rightarrow> forward \<Rightarrow> error option" where
  "check_forward ev fwd =
     (if \<not> surf_ori fwd then Some (ValueError ''fwd should be surface oriented'')
      else if is_fixed_orient ev fwd
      then Some (ValueError ''fwd should not have fixed orientation'')
      else None)"

text \<open>Lines 289 to 293, "limit forward".\<close>

definition limit_forward :: "env \<Rightarrow> forward \<Rightarrow> string \<Rightarrow> exclude_arg \<Rightarrow> error + forward" where
  "limit_forward ev fwd ch_type exclude =
     (if ch_type = ''eeg'' then pick_types_forward ev fwd MegFalse True exclude
      else pick_types_forward ev fwd (MegType ch_type) False exclude)"

text \<open>
  Lines 297 to 303, "Make sure EEG has average". \<open>projs\<close> is \<open>None\<close> or the address of the
  caller's list. The local variable \<^verbatim>\<open>eeg_ave\<close> is bound only when line 302 runs; line 303
  reads it in both arms of its conditional expression when \<open>projs\<close> is a list. The sum
  \<^verbatim>\<open>projs + eeg_ave\<close> of two lists is a new list.
\<close>

definition has_average_ref :: "env \<Rightarrow> projection list \<Rightarrow> bool" where
  "has_average_ref ev ps = list_ex (\<lambda>p. kind p = FIFFV_MNE_PROJ_ITEM_EEG_AVREF ev) ps"

definition eeg_average ::
  "env \<Rightarrow> store \<Rightarrow> forward \<Rightarrow> nat option \<Rightarrow> string \<Rightarrow> store \<times> (error + nat option)" where
  "eeg_average ev h fwd projs ch_type =
     (if ch_type = ''eeg'' then
        (case projs of
           None \<Rightarrow>
             (case make_eeg_average_ref_proj ev (fwd_info fwd) of
                Inl e \<Rightarrow> (h, Inl e)
              | Inr p \<Rightarrow> (case alloc h [p] of (h1, eeg_ave) \<Rightarrow> (h1, Inr (Some eeg_ave))))
         | Some a \<Rightarrow>
             if \<not> has_average_ref ev (h ! a) then
               (case make_eeg_average_ref_proj ev (fwd_info fwd) of
                  Inl e \<Rightarrow> (h, Inl e)
                | Inr p \<Rightarrow>
                    (case alloc h [p] of (h1, eeg_ave) \<Rightarrow>
                       (case alloc h1 (h1 ! a @ h1 ! eeg_ave) of (h2, projs') \<Rightarrow>
                          (h2, Inr (Some projs')))))
             else
               (h, Inl (UnboundLocalError
                          ''local variable 'eeg_ave' referenced before assignment'')))
      else (h, Inr projs))"

text \<open>
  Lines 305 to 315, "Construct the projector": the gain to analyse and, when there is a
  list of vectors, the pair \<open>(proj, U)\<close>.
\<close>

definition construct_projector ::
  "env \<Rightarrow> store \<Rightarrow> forward \<Rightarrow> nat option \<Rightarrow> string \<Rightarrow> real list list
   \<Rightarrow> error + (real list list \<times> (ndarray \<times> ndarray) option)" where
  "construct_projector ev h fwd projs mode gain =
     (case projs of
        Some a \<Rightarrow>
          (case make_projector ev (h ! a) (sol_row_names fwd) True of
             Inl e \<Rightarrow> Inl e
           | Inr (proj, ncomp, U) \<Rightarrow>
               if mode \<notin> set [''angle'', ''remaining'', ''dampening'']
               then (case np_dot_cols proj gain of
                       Inl e \<Rightarrow> Inl e
                     | Inr gain' \<Rightarrow> Inr (gain', Some (proj, U)))
               else Inr (gain, Some (proj, U)))
      | None \<Rightarrow>
          if mode \<in> set [''angle'', ''remaining'', ''dampening'']
          then Inl (ValueError (''No projectors used, cannot compute '' @ mode))
          else Inr (gain, None))"

text \<open>
  Lines 322 to 346: the body of the loop over the locations, for location \<open>k\<close>. \<open>pu\<close> is
  the pair \<open>(proj, U)\<close> when the projector was constructed; without it the two names are
  unbound. The source computes \<open>s\<close> for every mode but \<open>fixed\<close>, which does not read it.
  The slice \<^verbatim>\<open>gain[:, 3 * k:3 * (k + 1)]\<close> has three columns for every \<open>k\<close> of the loop.
\<close>

definition first_singular :: "real list \<Rightarrow> error + real" where
  "first_singular s =
     (case s of [] \<Rightarrow> Inl (IndexError ''index out of bounds'') | s0 # _ \<Rightarrow> Inr s0)"

definition location_value ::
  "env \<Rightarrow> string \<Rightarrow> real list list \<Rightarrow> (ndarray \<times> ndarray) option \<Rightarrow> nat \<Rightarrow> error + npfloat" where
  "location_value ev mode gain pu k =
     (let gg = take 3 (drop (3 * k) gain);
          s = linalg_svd_s ev gg
      in if mode = ''free'' then
           (case first_singular s of Inl e \<Rightarrow> Inl e | Inr s0 \<Rightarrow> Inr (Fin s0))
         else
           let gz = linalg_norm (gg ! 2)
           in if mode = ''fixed'' then Inr (Fin gz)
              else if mode = ''ratio'' then
                (case first_singular s of
                   Inl e \<Rightarrow> Inl e
                 | Inr s0 \<Rightarrow> Inr (np_truediv (Fin gz) (Fin s0)))
              else if mode = ''radiality'' then
                (case first_singular s of
                   Inl e \<Rightarrow> Inl e
                 | Inr s0 \<Rightarrow> Inr (np_sub (Fin 1) (np_truediv (Fin gz) (Fin s0))))
              else if mode = ''angle'' then
                (case pu of
                   None \<Rightarrow> Inl (UnboundLocalError
                                  ''local variable 'U' referenced before assignment'')
                 | Some (proj, U) \<Rightarrow>
                     (case np_dot_vm (gg ! 2) U of
                        Inl e \<Rightarrow> Inl e
                      | Inr w \<Rightarrow>
                          (case py_float_div (linalg_norm w) gz of
                             Inl e \<Rightarrow> Inl e
                           | Inr q \<Rightarrow> Inr (Fin q))))
              else
                (case pu of
                   None \<Rightarrow> Inl (UnboundLocalError
                                  ''local variable 'proj' referenced before assignment'')
                 | Some (proj, U) \<Rightarrow>
                     (case np_dot_mv proj (gg ! 2) of
                        Inl e \<Rightarrow> Inl e
                      | Inr w \<Rightarrow>
                          let p = linalg_norm w
                          in if mode = ''remaining'' then
                               (case py_float_div p gz of
                                  Inl e \<Rightarrow> Inl e
                                | Inr q \<Rightarrow> Inr (Fin q))
                             else if mode = ''dampening'' then
                               (case py_float_div p gz of
                                  Inl e \<Rightarrow> Inl e
                                | Inr q \<Rightarrow> Inr (Fin (1 - q)))
                             else Inl (ValueError (''Unknown mode type (got '' @ mode @ '')'')))))"

text \<open>
  Lines 275 to 346: the map before any normalization, with the restricted forward model.
  The store is returned with the outcome, also when the call raises.
\<close>

definition raw_sensitivity ::
  "env \<Rightarrow> store \<Rightarrow> forward \<Rightarrow> nat option \<Rightarrow> string \<Rightarrow> string \<Rightarrow> exclude_arg
   \<Rightarrow> store \<times> (error + forward \<times> npfloat list)" where
  "raw_sensitivity ev h fwd projs ch_type mode exclude =
     (case check_strings ch_type mode of
        Some e \<Rightarrow> (h, Inl e)
      | None \<Rightarrow>
     (case check_forward ev fwd of
        Some e \<Rightarrow> (h, Inl e)
      | None \<Rightarrow>
     (case limit_forward ev fwd ch_type exclude of
        Inl e \<Rightarrow> (h, Inl e)
      | Inr fwd' \<Rightarrow>
     (case eeg_average ev h fwd' projs ch_type of
        (h', Inl e) \<Rightarrow> (h', Inl e)
      | (h', Inr projs') \<Rightarrow>
     (h', case construct_projector ev h' fwd' projs' mode (sol_data fwd') of
            Inl e \<Rightarrow> Inl e
          | Inr (gain, pu) \<Rightarrow>
              (case map_err (location_value ev mode gain pu) [0..<length gain div 3] of
                 Inl e \<Rightarrow> Inl e
               | Inr m \<Rightarrow> Inr (fwd', m)))))))"

text \<open>Lines 348 to 350, "only normalize fixed and free methods".\<close>

definition normalize :: "string \<Rightarrow> npfloat list \<Rightarrow> error + npfloat list" where
  "normalize mode m =
     (if mode \<in> set [''fixed'', ''free'']
      then (case np_max m of Inl e \<Rightarrow> Inl e | Inr mx \<Rightarrow> Inr (map (\<lambda>x. np_truediv x mx) m))
      else Inr m)"

text \<open>Lines 352 to 357: the vertices of the two source spaces, the subject, the result.\<close>

definition build_stc :: "env \<Rightarrow> forward \<Rightarrow> npfloat list \<Rightarrow> error + source_estimate" where
  "build_stc ev fwd m =
     (case src_vertno fwd of
        v0 # v1 # _ \<Rightarrow>
          Inr \<lparr>stc_data = map (\<lambda>x. [x]) m, vertices = [v0, v1], tmin = 0, tstep = 1,
               subject = subject_from_forward ev fwd\<rparr>
      | _ \<Rightarrow> Inl (IndexError ''list index out of range''))"

text \<open>
  \<^verbatim>\<open>sensitivity_map(fwd, projs, ch_type, mode, exclude)\<close>, in the store \<open>h\<close>: the store
  after the call, and the \<^verbatim>\<open>SourceEstimate\<close> returned or the exception raised.
\<close>

definition sensitivity_map ::
  "env \<Rightarrow> store \<Rightarrow> forward \<Rightarrow> nat option \<Rightarrow> string \<Rightarrow> string \<Rightarrow> exclude_arg
   \<Rightarrow> store \<times> (error + source_estimate)" where
  "sensitivity_map ev h fwd projs ch_type mode exclude =
     (case raw_sensitivity ev h fwd projs ch_type mode exclude of
        (h', Inl e) \<Rightarrow> (h', Inl e)
      | (h', Inr (fwd', m)) \<Rightarrow>
          (h', case normalize mode m of Inl e \<Rightarrow> Inl e | Inr m' \<Rightarrow> build_stc ev fwd' m'))"

subsection \<open>Collaborators modelled from the spec\<close>

text \<open>
  Modelled from the spec: \<^verbatim>\<open>pick_types_forward\<close> of \<^verbatim>\<open>mne/fiff/pick.py\<close>. Step 1 of the
  spec's procedure: "restrict the gain matrix to channels of the requested sensor type
  (post exclusion)", where the exclusion is an "explicit list, or the sentinel meaning use
  the forward model's own bad-channel list".
\<close>

definition select :: "bool list \<Rightarrow> 'a list \<Rightarrow> 'a list" where
  "select keep xs = map snd (filter fst (zip keep xs))"

definition pick_types_forward_spec ::
  "forward \<Rightarrow> meg_sel \<Rightarrow> bool \<Rightarrow> exclude_arg \<Rightarrow> error + forward" where
  "pick_types_forward_spec fwd meg eeg exclude =
     (let nfo = fwd_info fwd;
          excl = (case exclude of ExcludeBads \<Rightarrow> bads nfo | ExcludeList l \<Rightarrow> l);
          keep = map (\<lambda>(nm, kd). kind_selected meg eeg kd \<and> nm \<notin> set excl)
                     (zip (ch_names nfo) (ch_kinds nfo))
      in Inr (fwd\<lparr>sol_data := map (select keep) (sol_data fwd),
                  sol_row_names := select keep (sol_row_names fwd),
                  fwd_info := nfo\<lparr>ch_names := select keep (ch_names nfo),
                                  ch_kinds := select keep (ch_kinds nfo)\<rparr>\<rparr>))"

text \<open>
  Modelled from the spec: \<^verbatim>\<open>make_eeg_average_ref_proj\<close> of \<^verbatim>\<open>mne/fiff/proj.py\<close>, which
  "given channel metadata, returns a synthesized average-reference projection vector":
  the weight \<open>1/n\<close> on each of the \<open>n\<close> good EEG channels, tagged with the given kind.
\<close>

definition make_eeg_average_ref_proj_spec :: "int \<Rightarrow> info \<Rightarrow> error + projection" where
  "make_eeg_average_ref_proj_spec avref_kind nfo =
     (let eeg_names = map ((!) (ch_names nfo)) (pick_types_spec nfo MegFalse True);
          n_eeg = length eeg_names
      in Inr \<lparr>active = False,
              pdata = \<lparr>col_names = eeg_names, row_names = None,
                       data = [replicate n_eeg (1 / real n_eeg)], nrow = 1, ncol = n_eeg\<rparr>,
              desc = ''Average EEG reference'',
              kind = avref_kind\<rparr>)"

text \<open>
  Modelled from the spec: \<^verbatim>\<open>make_projector\<close> of \<^verbatim>\<open>mne/fiff/proj.py\<close>. "\<open>P\<close> is an
  idempotent projection matrix (sensors by sensors) that removes the subspace spanned by
  active + supplied projection vectors"; "\<open>U\<close> is an orthonormal basis of the removed
  subspace itself". Each vector is spread over the given channel ordering, the vectors are
  orthonormalized one after the other, and \<open>P = I - U U\<^sup>T\<close>.
\<close>

definition spread :: "string list \<Rightarrow> projection \<Rightarrow> real list" where
  "spread names p =
     map (\<lambda>nm. case map_of (zip (col_names (pdata p)) (hd (data (pdata p)))) nm of
                  None \<Rightarrow> 0 | Some x \<Rightarrow> x) names"

fun orthonormalize :: "real list list \<Rightarrow> real list list \<Rightarrow> real list list" where
  "orthonormalize basis [] = basis"
| "orthonormalize basis (v # vs) =
     (let w = foldl (\<lambda>w b. map2 (-) w (map ((*) (dotp b v)) b)) v basis
      in if dotp w w = 0 then orthonormalize basis vs
         else orthonormalize (basis @ [map (\<lambda>x. x / sqrt (dotp w w)) w]) vs)"

definition make_projector_spec ::
  "projection list \<Rightarrow> string list \<Rightarrow> bool \<Rightarrow> error + (ndarray \<times> nat \<times> ndarray)" where
  "make_projector_spec projs names include_active =
     (let basis = orthonormalize []
                    (map (spread names) (filter (\<lambda>p. active p \<or> include_active) projs));
          n = length names
      in Inr (map (\<lambda>i. map (\<lambda>j. (if i = j then 1 else 0)
                                  - sum_list (map (\<lambda>b. b ! i * b ! j) basis)) [0..<n]) [0..<n],
              length basis,
              map (\<lambda>i. map (\<lambda>b. b ! i) basis) [0..<n]))"

text \<open>
  The singular values of a matrix of rank at most one, given by its columns: the only one
  that can differ from zero is the root of the sum of the squares of all entries. It stands
  for the parameter \<open>linalg_svd_s\<close> at such matrices.
\<close>

definition svd_s_rank1 :: "real list list \<Rightarrow> real list" where
  "svd_s_rank1 cols =
     (case cols of
        [] \<Rightarrow> []
      | c # _ \<Rightarrow> if c = [] then []
                 else sqrt (sum_list (map (\<lambda>c. dotp c c) cols))
                      # replicate (min (length c) (length cols) - 1) 0)"

text \<open>The collaborators modelled from the spec, gathered for concrete calls.\<close>

definition env_spec :: env where
  "env_spec =
     \<lparr>FIFFV_MNE_PROJ_ITEM_EEG_AVREF = 10,
      is_fixed_orient = (\<lambda>fwd. source_ori fwd = 1),
      pick_types_forward = pick_types_forward_spec,
      make_eeg_average_ref_proj = make_eeg_average_ref_proj_spec 10,
      make_projector = make_projector_spec,
      linalg_svd_s = svd_s_rank1,
      subject_from_forward = src_subject\<rparr>"

subsection \<open>Predicates and inputs used in the statements\<close>

text \<open>
  "1 minus" a float, in the spec's words: the real difference for a number; the opposite
  infinity for an infinity; NaN for NaN.
\<close>

definition one_minus :: "npfloat \<Rightarrow> npfloat" where
  "one_minus x =
     (case x of Fin v \<Rightarrow> Fin (1 - v) | PInf \<Rightarrow> NInf | NInf \<Rightarrow> PInf | NaN \<Rightarrow> NaN)"

text \<open>A float that is a number between 0 and 1.\<close>

definition in_unit :: "npfloat \<Rightarrow> bool" where
  "in_unit x = (case x of Fin v \<Rightarrow> 0 \<le> v \<and> v \<le> 1 | _ \<Rightarrow> False)"

text \<open>
  The contract of \<^verbatim>\<open>linalg.svd\<close> that the normalization relies on: singular values are
  not negative.
\<close>

definition svd_s_contract :: "(real list list \<Rightarrow> real list) \<Rightarrow> bool" where
  "svd_s_contract svd_s = (\<forall>gg. list_all (\<lambda>x. 0 \<le> x) (svd_s gg))"

text \<open>A square array of size \<open>n\<close>.\<close>

definition square :: "nat \<Rightarrow> ndarray \<Rightarrow> bool" where
  "square n a = (length a = n \<and> list_all (\<lambda>r. length r = n) a)"

text \<open>
  Forward models for concrete calls: one gradiometer and two locations (twice); one
  gradiometer and one location of zero gain; two EEG channels and one location; four EEG
  channels and one location. The gain of each location has rank at most one. \<open>avref2\<close> is the average-reference vector of the two EEG channels and
  \<open>ssp_meg\<close> a vector on the gradiometer.
\<close>

definition fwd_grad :: forward where
  "fwd_grad =
     \<lparr>surf_ori = True, source_ori = 2,
      sol_data = [[0], [0], [2], [0], [0], [1]], sol_row_names = [''MEG 0113''],
      fwd_info = \<lparr>ch_names = [''MEG 0113''], ch_kinds = [GradCh], bads = []\<rparr>,
      src_vertno = [[10, 20], []], src_subject = Some ''sample''\<rparr>"

definition fwd_grad_flat :: forward where
  "fwd_grad_flat = fwd_grad\<lparr>sol_data := [[0], [0], [0]], src_vertno := [[10], []]\<rparr>"

definition fwd_eeg :: forward where
  "fwd_eeg =
     \<lparr>surf_ori = True, source_ori = 2,
      sol_data = [[0, 0], [0, 0], [1, - 1]], sol_row_names = [''EEG 001'', ''EEG 002''],
      fwd_info = \<lparr>ch_names = [''EEG 001'', ''EEG 002''], ch_kinds = [EegCh, EegCh],
                  bads = []\<rparr>,
      src_vertno = [[7], []], src_subject = None\<rparr>"

definition fwd_grad_345 :: forward where
  "fwd_grad_345 =
     \<lparr>surf_ori = True, source_ori = 2,
      sol_data = [[3], [0], [4], [0], [0], [2]], sol_row_names = [''MEG 0113''],
      fwd_info = \<lparr>ch_names = [''MEG 0113''], ch_kinds = [GradCh], bads = []\<rparr>,
      src_vertno = [[10, 20], []], src_subject = Some ''sample''\<rparr>"

definition fwd_eeg4 :: forward where
  "fwd_eeg4 =
     \<lparr>surf_ori = True, source_ori = 2,
      sol_data = [[0, 0, 0, 0], [0, 0, 0, 0], [7, 7, 1, 1]],
      sol_row_names = [''EEG 001'', ''EEG 002'', ''EEG 003'', ''EEG 004''],
      fwd_info = \<lparr>ch_names = [''EEG 001'', ''EEG 002'', ''EEG 003'', ''EEG 004''],
                  ch_kinds = [EegCh, EegCh, EegCh, EegCh], bads = []\<rparr>,
      src_vertno = [[7], []], src_subject = None\<rparr>"

definition avref2 :: projection where
  "avref2 =
     \<lparr>active = False,
      pdata = \<lparr>col_names = [''EEG 001'', ''EEG 002''], row_names = None,
               data = [[1 / 2, 1 / 2]], nrow = 1, ncol = 2\<rparr>,
      desc = ''Average EEG reference'', kind = 10\<rparr>"

definition ssp_meg :: projection where
  "ssp_meg = mk_proj [''MEG 0113''] ''planar'' ''Raw-0.000-1.000'' 0 [1]"

section \<open>Properties of the covariance accumulation\<close>

lemma np_shape_square: "square n a \<Longrightarrow> np_shape a = (n, n)"
  by (cases a) (auto simp: square_def np_shape_def)

lemma bcast_to_square: "square n a \<Longrightarrow> bcast_to n n a = a"
  by (auto simp: square_def bcast_to_def list_all_iff intro: map_idI)

lemma np_add_square:
  "square n a \<Longrightarrow> square n b \<Longrightarrow> np_add a b = Inr (map2 (map2 (+)) a b)"
  by (simp add: np_add_def np_shape_square bdim_def bcast_to_square)

lemma square_map2:
  "square n a \<Longrightarrow> square n b \<Longrightarrow> square n (map2 (map2 (+)) a b)"
  unfolding square_def list_all_iff
  by (auto dest: set_zip_leftD set_zip_rightD) (metis set_zip_leftD set_zip_rightD min.idem)

lemma square_nth: "square n a \<Longrightarrow> i < n \<Longrightarrow> length (a ! i) = n"
  by (auto simp: square_def list_all_iff)

lemma square_eqI:
  assumes "square n a" "square n b" "\<And>i j. i < n \<Longrightarrow> j < n \<Longrightarrow> a ! i ! j = b ! i ! j"
  shows "a = b"
proof (rule nth_equalityI)
  show "length a = length b" using assms by (simp add: square_def)
next
  fix i assume "i < length a"
  then have i: "i < n" using assms by (simp add: square_def)
  show "a ! i = b ! i"
    by (rule nth_equalityI) (use assms i in \<open>auto simp: square_nth\<close>)
qed

text \<open>The loop of \<^verbatim>\<open>sum\<close> over square arrays of one size adds entry by entry and never raises.\<close>

lemma py_sum_from_square:
  "square n acc \<Longrightarrow> list_all (square n) ds \<Longrightarrow>
   py_sum_from acc ds =
     Inr (map (\<lambda>i. map (\<lambda>j. acc ! i ! j + sum_list (map (\<lambda>d. d ! i ! j) ds)) [0..<n]) [0..<n])"
proof (induction ds arbitrary: acc)
  case Nil
  have "acc = map (\<lambda>i. map (\<lambda>j. acc ! i ! j) [0..<n]) [0..<n]"
    by (rule square_eqI[OF Nil(1)]) (auto simp: square_def list_all_iff)
  then show ?case by simp
next
  case (Cons d ds)
  then have d: "square n d" and ds: "list_all (square n) ds" by simp_all
  have sq: "square n (map2 (map2 (+)) acc d)" by (rule square_map2[OF Cons.prems(1) d])
  have nth: "map2 (map2 (+)) acc d ! i ! j = acc ! i ! j + d ! i ! j" if "i < n" "j < n" for i j
    using that Cons.prems(1) d by (simp add: square_def list_all_iff)
  show ?case
    by (simp add: np_add_square[OF Cons.prems(1) d] Cons.IH[OF sq ds] nth add.assoc)
qed

lemma square_gram: "length e = n \<Longrightarrow> square n (np_dot_T e e)"
  by (simp add: square_def np_dot_T_def list_all_iff)

lemma np_scalar_add_0: "np_scalar_add 0 a = a"
  by (simp add: np_scalar_add_def map_idI)

lemma gram_nth:
  "i < length e \<Longrightarrow> j < length e \<Longrightarrow> np_dot_T e e ! i ! j = dotp (e ! i) (e ! j)"
  by (simp add: np_dot_T_def)

lemma sum_list_mset_cong:
  "mset xs = mset ys \<Longrightarrow> sum_list (map f xs) = sum_list (map (f :: 'a \<Rightarrow> real) ys)"
  by (metis mset_map sum_mset_sum_list)

lemma same_shape_first:
  "same_shape n m epochs \<Longrightarrow> epochs \<noteq> [] \<Longrightarrow>
   np_shape (hd epochs) = (n, if n = 0 then 0 else m)"
  by (cases epochs; cases "hd epochs") (auto simp: same_shape_def np_shape_def)

lemma cov_value:
  assumes "epochs \<noteq> []" "same_shape n m epochs"
  shows "compute_cov_epochs chk epochs n_jobs =
     (case chk ((if n = 0 then 0 else m) * length epochs) n of
        Some e \<Rightarrow> Inl e | None \<Rightarrow> Inr (outer_product_sum n epochs))"
proof -
  obtain e es where ep: "epochs = e # es" using assms(1) by (cases epochs) auto
  have len: "length e = n" "list_all (\<lambda>X. length X = n) es"
    using assms(2) by (auto simp: ep same_shape_def list_all_iff)
  have sq: "square n (np_dot_T e e)" by (rule square_gram[OF len(1)])
  have sqs: "list_all (square n) (map (\<lambda>e. np_dot_T e e) es)"
    using len(2) by (auto simp: list_all_iff square_gram)
  have sum: "py_sum_from (np_dot_T e e) (map (\<lambda>e. np_dot_T e e) es)
               = Inr (outer_product_sum n epochs)"
    unfolding py_sum_from_square[OF sq sqs] outer_product_sum_def ep
    using len by (auto simp: gram_nth list_all_iff comp_def intro!: arg_cong[where f=sum_list])
  show ?thesis
    using same_shape_first[OF assms(2,1)] sum
    by (simp add: compute_cov_epochs_def parallel_def ep np_scalar_add_0 split: option.splits)
qed

text \<open>
  Claim C5. For segments of one shape (\<open>n\<close> channels, \<open>m\<close> samples), the accumulation
  returns the sum of the per-segment outer products \<open>X\<^sub>i \<cdot> X\<^sub>i\<^sup>T\<close> whenever the sample check
  lets it through, and a call on any permutation of the segments has the same outcome,
  whatever the number of jobs.
\<close>

theorem cov_epochs_sum_any_order:
  assumes "epochs \<noteq> []" and "same_shape n m epochs" and "mset epochs' = mset epochs"
  shows "compute_cov_epochs chk epochs n_jobs =
           (case chk ((if n = 0 then 0 else m) * length epochs) n of
              Some e \<Rightarrow> Inl e | None \<Rightarrow> Inr (outer_product_sum n epochs))
         \<and> compute_cov_epochs chk epochs' n_jobs' = compute_cov_epochs chk epochs n_jobs"
proof -
  have set_eq: "set epochs' = set epochs" using assms(3) by (rule mset_eq_setD)
  have ne': "epochs' \<noteq> []" using assms(1) set_eq by auto
  have sh': "same_shape n m epochs'"
    using assms(2) set_eq by (simp add: same_shape_def list_all_iff)
  have len: "length epochs' = length epochs" using assms(3) by (rule mset_eq_length)
  have sums: "outer_product_sum n epochs' = outer_product_sum n epochs"
    unfolding outer_product_sum_def using sum_list_mset_cong[OF assms(3)] by simp
  have perm: "compute_cov_epochs chk epochs' n_jobs' = compute_cov_epochs chk epochs n_jobs"
    unfolding cov_value[OF ne' sh'] cov_value[OF assms(1,2)] len sums by (rule refl)
  show ?thesis
    by (rule conjI[OF cov_value[OF assms(1,2)] perm])
qed

theorem cov_epochs_sum_any_order_witness:
  "compute_cov_epochs check_n_samples_spec [[[1, 0], [0, 1]], [[1, 1], [2, 0]]] 1
     = Inr [[3, 2], [2, 5]]
   \<and> compute_cov_epochs check_n_samples_spec [[[1, 1], [2, 0]], [[1, 0], [0, 1]]] 4
     = Inr [[3, 2], [2, 5]]"
proof -
  have ne: "[[[1, 0], [0, 1]], [[1, 1], [2, 0]]] \<noteq> ([] :: ndarray list)" by simp
  have sh: "same_shape 2 2 [[[1, 0], [0, 1]], [[1, 1], [2, 0]]]"
    by (simp add: same_shape_def)
  have pm: "mset [[[1, 1], [2, 0]], [[1, 0], [0, 1]]]
              = mset [[[1, 0], [0, 1]], [[1, 1], [2, 0 :: real]]]"
    by (simp add: add_mset_commute)
  have nums: "[0..<2] = [0, Suc 0]" by (simp add: upt_rec)
  show ?thesis
    using cov_epochs_sum_any_order[OF ne sh pm, of check_n_samples_spec 1 4]
    by (simp add: check_n_samples_spec_def outer_product_sum_def dotp_def nums)
qed

text \<open>
  Claim C8. With no usable segment the accumulation raises the
  \<^verbatim>\<open>RuntimeError\<close> "No good epochs found": the result is the error and no matrix.
\<close>

theorem cov_epochs_no_segment:
  "compute_cov_epochs chk [] n_jobs = Inl (RuntimeError ''No good epochs found'')"
  by (simp add: compute_cov_epochs_def parallel_def)

section \<open>Properties of the projection basis estimation\<close>

lemma enumerate_map_nth:
  "map (\<lambda>(k, u). f k u) (enumerate 0 vs) = map (\<lambda>k. f k (vs ! k)) [0..<length vs]"
  by (rule nth_equalityI) (simp_all add: nth_enumerate_eq)

lemma group_projs_Inr:
  assumes "snd (group_projs svd_U d pfx (n, ind, names, lbl)) = Inr ps"
  shows "(n = 0 \<and> ps = []) \<or>
         (n \<noteq> 0 \<and> (\<exists>vs. group_vectors svd_U d ind n = Inr vs \<and>
             ps = map (\<lambda>k. mk_proj names lbl pfx k (vs ! k)) [0..<length vs]))"
  using assms
  by (auto simp: group_projs_def enumerate_map_nth split: if_splits sum.splits)

lemma group_block_mk:
  "group_block lbl pfx (map (\<lambda>k. mk_proj names lbl pfx k (vs ! k)) [0..<length vs])"
  by (auto simp: group_block_def list_all_iff enumerate_eq_zip in_set_zip mk_proj_def this_desc_def)

lemma group_projs_block:
  assumes "snd (group_projs svd_U d pfx (n, ind, names, lbl)) = Inr ps"
  shows "group_block lbl pfx ps"
  using group_projs_Inr[OF assms] group_block_mk[of lbl pfx names]
  by (auto simp: group_block_def)

lemma proj_loop_three:
  assumes "snd (proj_loop svd_U d pfx [g1, g2, g3] []) = Inr ps"
  shows "\<exists>p1 p2 p3. snd (group_projs svd_U d pfx g1) = Inr p1 \<and>
            snd (group_projs svd_U d pfx g2) = Inr p2 \<and>
            snd (group_projs svd_U d pfx g3) = Inr p3 \<and> ps = p1 @ p2 @ p3"
  using assms by (auto split: prod.splits sum.splits)



lemma length_py_take_same:
  "length xs = length ys \<Longrightarrow> length (py_take n xs) = length (py_take n ys)"
  by (simp add: py_take_def)

lemma py_take_nth: "j < length (py_take n xs) \<Longrightarrow> py_take n xs ! j = xs ! j"
  by (simp add: py_take_def split: if_splits)

lemma length_py_take_le: "length (py_take n xs) \<le> length xs"
  by (simp add: py_take_def)

lemma np_T_py_take:
  assumes "list_all (\<lambda>r. length r = m) U"
  shows "np_T (map (py_take n) U) = take (length (py_take n (replicate m (0::real)))) (np_T U)"
proof (cases U)
  case Nil
  then show ?thesis by (simp add: np_T_def)
next
  case (Cons r rs)
  have len: "length x = m" if "x \<in> set U" for x using assms that by (simp add: list_all_iff)
  have lr: "length r = m" using len Cons by simp
  let ?k = "length (py_take n (replicate m (0::real)))"
  have k: "length (py_take n x) = ?k" if "x \<in> set U" for x
    using len[OF that] by (simp add: py_take_def min.commute)
  have kr: "length (py_take n r) = ?k" using k Cons by simp
  have km: "?k \<le> m" using length_py_take_le[of n "replicate m (0::real)"] by simp
  have "np_T (map (py_take n) U) = map (\<lambda>j. map (\<lambda>row. py_take n row ! j) U) [0..<?k]"
    using Cons kr by (simp add: np_T_def comp_def)
  also have "\<dots> = map (\<lambda>j. map (\<lambda>row. row ! j) U) [0..<?k]"
    by (auto simp: k py_take_nth)
  also have "\<dots> = take ?k (map (\<lambda>j. map (\<lambda>row. row ! j) U) [0..<m])"
    using km by (simp add: take_map)
  also have "\<dots> = take ?k (np_T U)"
    using Cons lr by (simp add: np_T_def)
  finally show ?thesis .
qed

lemma orthonormal_take: "orthonormal vs \<Longrightarrow> orthonormal (take k vs)"
  by (auto simp: orthonormal_def list_all_iff)

lemma proj_vector_mk: "proj_vector (mk_proj names lbl pfx k u) = u"
  by (simp add: proj_vector_def mk_proj_def)








lemmas cp_eval = compute_proj_def Let_def pick_types_spec_def kind_selected_def take_items_def
  force_rank_def group_projs_def group_vectors_def take_rows_def take_cols_def np_shape_def
  svd_U_diag_def py_take_def np_T_def mk_proj_def this_desc_def fmt_02d_def






lemma kept_py_take: "length (py_take n (replicate m (0::real))) = kept n m"
  by (simp add: py_take_def kept_def min.commute)

lemma take_rows_length: "take_rows d ind = Inr rows \<Longrightarrow> length rows = length ind"
  by (auto simp: take_rows_def split: if_splits)

lemma take_cols_length: "take_cols rows ind = Inr a \<Longrightarrow> length a = length rows"
  by (auto simp: take_cols_def split: if_splits)

lemma length_np_T:
  "list_all (\<lambda>r. length r = m) U \<Longrightarrow> length U = m \<Longrightarrow> length (np_T U) = m"
  by (cases U) (auto simp: np_T_def)

lemma group_vectors_leading:
  assumes "group_vectors svd_U d ind n = Inr vs"
    and "svd_holds_on svd_U svd_s svd_Vh d ind n"
    and "\<not> no_rank n ind"
  shows "leading_singular_vectors svd_U svd_s svd_Vh d ind n vs \<and> orthonormal vs"
proof -
  from assms(1) obtain rows a where r: "take_rows d ind = Inr rows"
    and a: "take_cols rows ind = Inr a" and vs: "vs = np_T (map (py_take n) (svd_U a))"
    by (auto simp: group_vectors_def split: sum.splits)
  have la: "length a = length ind"
    using take_rows_length[OF r] take_cols_length[OF a] by simp
  have svd: "is_svd a (svd_U a) (svd_s a) (svd_Vh a)"
    using assms(2,3) by (simp add: svd_holds_on_def r a)
  have c: "list_all (\<lambda>r. length r = length a) (svd_U a)" and lu: "length (svd_U a) = length a"
    and o: "orthonormal (np_T (svd_U a))"
    using svd by (simp_all add: is_svd_def)
  have eq: "vs = take (kept n (length ind)) (np_T (svd_U a))"
    unfolding vs np_T_py_take[OF c] kept_py_take la by (rule refl)
  have "kept n (length ind) \<le> length ind" by (simp add: kept_def)
  then have len: "length vs = kept n (length ind)"
    using length_np_T[OF c lu] by (simp add: eq la)
  have "orthonormal vs" unfolding eq by (rule orthonormal_take[OF o])
  then show ?thesis
    using assms(3) svd eq len by (simp add: leading_singular_vectors_def r a)
qed

lemma group_projs_leading:
  assumes "snd (group_projs svd_U d pfx (snd (force_rank n ind msg), ind, names, lbl)) = Inr ps"
    and "svd_holds_on svd_U svd_s svd_Vh d ind n"
  shows "leading_singular_vectors svd_U svd_s svd_Vh d ind n (map proj_vector ps)
         \<and> orthonormal (map proj_vector ps)"
proof (cases "no_rank n ind")
  case True
  then have "snd (force_rank n ind msg) = 0" by (auto simp: no_rank_def force_rank_def)
  then have "ps = []" using assms(1) by (simp add: group_projs_def)
  then show ?thesis using True by (simp add: leading_singular_vectors_def orthonormal_def)
next
  case False
  then have fr: "snd (force_rank n ind msg) = n" and n0: "n \<noteq> 0"
    by (auto simp: no_rank_def force_rank_def)
  from group_projs_Inr[OF assms(1)[unfolded fr]] n0 obtain vs where
    vs: "group_vectors svd_U d ind n = Inr vs"
    and ps: "ps = map (\<lambda>k. mk_proj names lbl pfx k (vs ! k)) [0..<length vs]" by blast
  have "map proj_vector ps = vs"
    unfolding ps by (rule nth_equalityI) (simp_all add: proj_vector_mk)
  then show ?thesis using group_vectors_leading[OF vs assms(2) False] by simp
qed

lemma compute_proj_groups_ranked:
  assumes "snd (compute_proj pick_types svd_U d nfo n_grad n_mag n_eeg pfx) = Inr ps"
  shows "\<exists>gs ms es gn mn en.
           snd (group_projs svd_U d pfx
                  (snd (force_rank n_grad (pick_types nfo (MegType ''grad'') False)
                          ''No gradiometers found. Forcing n_grad to 0''),
                   pick_types nfo (MegType ''grad'') False, gn, ''planar'')) = Inr gs \<and>
           snd (group_projs svd_U d pfx
                  (snd (force_rank n_mag (pick_types nfo (MegType ''mag'') False)
                          ''No magnetometers found. Forcing n_mag to 0''),
                   pick_types nfo (MegType ''mag'') False, mn, ''axial'')) = Inr ms \<and>
           snd (group_projs svd_U d pfx
                  (snd (force_rank n_eeg (pick_types nfo MegFalse True)
                          ''No EEG channels found. Forcing n_eeg to 0''),
                   pick_types nfo MegFalse True, en, ''eeg'')) = Inr es \<and>
           ps = gs @ ms @ es"
proof -
  from assms obtain gn mn en where
    "snd (proj_loop svd_U d pfx
       [(snd (force_rank n_grad (pick_types nfo (MegType ''grad'') False)
                ''No gradiometers found. Forcing n_grad to 0''),
         pick_types nfo (MegType ''grad'') False, gn, ''planar''),
        (snd (force_rank n_mag (pick_types nfo (MegType ''mag'') False)
                ''No magnetometers found. Forcing n_mag to 0''),
         pick_types nfo (MegType ''mag'') False, mn, ''axial''),
        (snd (force_rank n_eeg (pick_types nfo MegFalse True)
                ''No EEG channels found. Forcing n_eeg to 0''),
         pick_types nfo MegFalse True, en, ''eeg'')] []) = Inr ps"
    unfolding compute_proj_def Let_def
    by (auto split: prod.splits sum.splits simp del: proj_loop.simps) (metis snd_conv)
  from proj_loop_three[OF this] show ?thesis by blast
qed

text \<open>
  Claim C9. Where \<^verbatim>\<open>linalg.svd\<close> returns a singular value decomposition of the principal
  covariance submatrix of each group that is decomposed, the vectors emitted for a group
  are its leading left singular vectors, in the order of descending singular values: as many
  as the requested rank keeps, none when the rank is zero or forced to zero. They are
  pairwise orthogonal and each has unit norm: the inner product of two of them is 1 when
  they are the same vector and 0 otherwise.
\<close>

theorem emitted_vectors_orthonormal:
  assumes "snd (compute_proj pick_types svd_U d nfo n_grad n_mag n_eeg pfx) = Inr ps"
    and "svd_holds_on svd_U svd_s svd_Vh d (pick_types nfo (MegType ''grad'') False) n_grad"
    and "svd_holds_on svd_U svd_s svd_Vh d (pick_types nfo (MegType ''mag'') False) n_mag"
    and "svd_holds_on svd_U svd_s svd_Vh d (pick_types nfo MegFalse True) n_eeg"
  shows "\<exists>gs ms es. ps = gs @ ms @ es
           \<and> group_block ''planar'' pfx gs \<and> orthonormal (map proj_vector gs)
           \<and> leading_singular_vectors svd_U svd_s svd_Vh d
                (pick_types nfo (MegType ''grad'') False) n_grad (map proj_vector gs)
           \<and> group_block ''axial'' pfx ms \<and> orthonormal (map proj_vector ms)
           \<and> leading_singular_vectors svd_U svd_s svd_Vh d
                (pick_types nfo (MegType ''mag'') False) n_mag (map proj_vector ms)
           \<and> group_block ''eeg'' pfx es \<and> orthonormal (map proj_vector es)
           \<and> leading_singular_vectors svd_U svd_s svd_Vh d
                (pick_types nfo MegFalse True) n_eeg (map proj_vector es)"
proof -
  from compute_proj_groups_ranked[OF assms(1)] obtain gs ms es gn mn en where
    g: "snd (group_projs svd_U d pfx
                  (snd (force_rank n_grad (pick_types nfo (MegType ''grad'') False)
                          ''No gradiometers found. Forcing n_grad to 0''),
                   pick_types nfo (MegType ''grad'') False, gn, ''planar'')) = Inr gs"
    and m: "snd (group_projs svd_U d pfx
                  (snd (force_rank n_mag (pick_types nfo (MegType ''mag'') False)
                          ''No magnetometers found. Forcing n_mag to 0''),
                   pick_types nfo (MegType ''mag'') False, mn, ''axial'')) = Inr ms"
    and e: "snd (group_projs svd_U d pfx
                  (snd (force_rank n_eeg (pick_types nfo MegFalse True)
                          ''No EEG channels found. Forcing n_eeg to 0''),
                   pick_types nfo MegFalse True, en, ''eeg'')) = Inr es"
    and ps: "ps = gs @ ms @ es" by blast
  show ?thesis
    using ps group_projs_block[OF g] group_projs_block[OF m] group_projs_block[OF e]
      group_projs_leading[OF g assms(2)] group_projs_leading[OF m assms(3)]
      group_projs_leading[OF e assms(4)]
    by blast
qed

lemmas svd_eval = svd_holds_on_def leading_singular_vectors_def no_rank_def is_svd_def
  take_rows_def take_cols_def np_shape_def svd_U_diag_def svd_s_diag_def svd_Vh_diag_def
  orthonormal_def np_T_def dotp_def kept_def pick_types_spec_def kind_selected_def info5_def
  cov5_def

lemma three: "[0..<3] = [0, 1, 2]" by (simp add: upt_rec)

lemma pk_g: "pick_types_spec info5 (MegType ''grad'') False = [0, 1]"
  by (simp add: pick_types_spec_def kind_selected_def info5_def)
lemma pk_m: "pick_types_spec info5 (MegType ''mag'') False = []"
  by (simp add: pick_types_spec_def kind_selected_def info5_def)
lemma pk_e: "pick_types_spec info5 MegFalse True = [2, 3, 4]"
  by (simp add: pick_types_spec_def kind_selected_def info5_def)

lemma h_g: "svd_holds_on svd_U_diag svd_s_diag svd_Vh_diag cov5 [0, 1] 1"
  by (simp add: svd_eval)
lemma h_m: "svd_holds_on svd_U_diag svd_s_diag svd_Vh_diag cov5 [] 2"
  by (simp add: svd_eval)
lemma h_e: "svd_holds_on svd_U_diag svd_s_diag svd_Vh_diag cov5 [2, 3, 4] 2"
  by (simp add: svd_eval three)

lemma ev5: "snd (compute_proj pick_types_spec svd_U_diag cov5 info5 1 2 2 ''y'')
   = Inr [mk_proj [''MEG 0112'', ''MEG 0113''] ''planar'' ''y'' 0 [1, 0],
          mk_proj [''EEG 001'', ''EEG 002'', ''EEG 003''] ''eeg'' ''y'' 0 [1, 0, 0],
          mk_proj [''EEG 001'', ''EEG 002'', ''EEG 003''] ''eeg'' ''y'' 1 [0, 1, 0]]"
  by (simp add: cp_eval info5_def cov5_def)


theorem emitted_vectors_orthonormal_witness:
  "svd_holds_on svd_U_diag svd_s_diag svd_Vh_diag cov5
     (pick_types_spec info5 (MegType ''grad'') False) 1
   \<and> svd_holds_on svd_U_diag svd_s_diag svd_Vh_diag cov5
     (pick_types_spec info5 (MegType ''mag'') False) 2
   \<and> svd_holds_on svd_U_diag svd_s_diag svd_Vh_diag cov5
     (pick_types_spec info5 MegFalse True) 2
   \<and> snd (compute_proj pick_types_spec svd_U_diag cov5 info5 1 2 2 ''y'')
     = Inr [mk_proj [''MEG 0112'', ''MEG 0113''] ''planar'' ''y'' 0 [1, 0],
            mk_proj [''EEG 001'', ''EEG 002'', ''EEG 003''] ''eeg'' ''y'' 0 [1, 0, 0],
            mk_proj [''EEG 001'', ''EEG 002'', ''EEG 003''] ''eeg'' ''y'' 1 [0, 1, 0]]
   \<and> (\<exists>gs ms es.
         [mk_proj [''MEG 0112'', ''MEG 0113''] ''planar'' ''y'' 0 [1, 0],
          mk_proj [''EEG 001'', ''EEG 002'', ''EEG 003''] ''eeg'' ''y'' 0 [1, 0, 0],
          mk_proj [''EEG 001'', ''EEG 002'', ''EEG 003''] ''eeg'' ''y'' 1 [0, 1, 0]]
           = gs @ ms @ es
         \<and> group_block ''planar'' ''y'' gs \<and> orthonormal (map proj_vector gs)
         \<and> leading_singular_vectors svd_U_diag svd_s_diag svd_Vh_diag cov5 [0, 1] 1
              (map proj_vector gs)
         \<and> group_block ''axial'' ''y'' ms \<and> orthonormal (map proj_vector ms)
         \<and> leading_singular_vectors svd_U_diag svd_s_diag svd_Vh_diag cov5 [] 2
              (map proj_vector ms)
         \<and> group_block ''eeg'' ''y'' es \<and> orthonormal (map proj_vector es)
         \<and> leading_singular_vectors svd_U_diag svd_s_diag svd_Vh_diag cov5 [2, 3, 4] 2
              (map proj_vector es))
   \<and> leading_singular_vectors svd_U_diag svd_s_diag svd_Vh_diag cov5 [2, 3, 4] 2
        [[1, 0, 0], [0, 1, 0]]
   \<and> \<not> leading_singular_vectors svd_U_diag svd_s_diag svd_Vh_diag cov5 [2, 3, 4] 2
        [[1, 0, 0], [0, 1, 0], [0, 0, 1]]"
proof -
  have hg: "svd_holds_on svd_U_diag svd_s_diag svd_Vh_diag cov5
     (pick_types_spec info5 (MegType ''grad'') False) 1" unfolding pk_g by (rule h_g)
  have hm: "svd_holds_on svd_U_diag svd_s_diag svd_Vh_diag cov5
     (pick_types_spec info5 (MegType ''mag'') False) 2" unfolding pk_m by (rule h_m)
  have he: "svd_holds_on svd_U_diag svd_s_diag svd_Vh_diag cov5
     (pick_types_spec info5 MegFalse True) 2" unfolding pk_e by (rule h_e)
  have l1: "leading_singular_vectors svd_U_diag svd_s_diag svd_Vh_diag cov5 [2, 3, 4] 2
        [[1, 0, 0], [0, 1, 0]]"
    by (simp add: svd_eval three)
  have l2: "\<not> leading_singular_vectors svd_U_diag svd_s_diag svd_Vh_diag cov5 [2, 3, 4] 2
        [[1, 0, 0], [0, 1, 0], [0, 0, 1]]"
    by (simp add: leading_singular_vectors_def no_rank_def kept_def split: sum.splits)
  from emitted_vectors_orthonormal[OF ev5 hg hm he, unfolded pk_g pk_m pk_e]
  have ex: "\<exists>gs ms es.
         [mk_proj [''MEG 0112'', ''MEG 0113''] ''planar'' ''y'' 0 [1, 0],
          mk_proj [''EEG 001'', ''EEG 002'', ''EEG 003''] ''eeg'' ''y'' 0 [1, 0, 0],
          mk_proj [''EEG 001'', ''EEG 002'', ''EEG 003''] ''eeg'' ''y'' 1 [0, 1, 0]]
           = gs @ ms @ es
         \<and> group_block ''planar'' ''y'' gs \<and> orthonormal (map proj_vector gs)
         \<and> leading_singular_vectors svd_U_diag svd_s_diag svd_Vh_diag cov5 [0, 1] 1
              (map proj_vector gs)
         \<and> group_block ''axial'' ''y'' ms \<and> orthonormal (map proj_vector ms)
         \<and> leading_singular_vectors svd_U_diag svd_s_diag svd_Vh_diag cov5 [] 2
              (map proj_vector ms)
         \<and> group_block ''eeg'' ''y'' es \<and> orthonormal (map proj_vector es)
         \<and> leading_singular_vectors svd_U_diag svd_s_diag svd_Vh_diag cov5 [2, 3, 4] 2
              (map proj_vector es)" .
  show ?thesis
    by (intro conjI hg hm he ev5 ex l1 l2)
qed

section \<open>Properties of the sensitivity map\<close>

lemma eeg_average_frame: "take (length h) (fst (eeg_average ev h fwd projs ch_type)) = h"
  by (simp add: eeg_average_def alloc_def split: option.splits sum.splits)

lemma raw_sensitivity_frame:
  "take (length h) (fst (raw_sensitivity ev h fwd projs ch_type mode exclude)) = h"
proof -
  have "fst (raw_sensitivity ev h fwd projs ch_type mode exclude) = h
        \<or> (\<exists>fwd'. fst (raw_sensitivity ev h fwd projs ch_type mode exclude)
                    = fst (eeg_average ev h fwd' projs ch_type))"
    by (auto simp: raw_sensitivity_def split: option.splits sum.splits prod.splits)
       (metis fst_conv)+
  then show ?thesis using eeg_average_frame by auto
qed

text \<open>
  Claim C10. Every list that is in the store before the call is in it, unchanged, after the
  call, whatever the call does: the store only grows. In particular the caller's list holds
  the vectors it held before; the synthesized vector and the sum \<^verbatim>\<open>projs + eeg_ave\<close> are
  new lists.
\<close>

theorem caller_list_not_mutated:
  "take (length h) (fst (sensitivity_map ev h fwd projs ch_type mode exclude)) = h"
proof -
  have "fst (sensitivity_map ev h fwd projs ch_type mode exclude)
          = fst (raw_sensitivity ev h fwd projs ch_type mode exclude)"
    by (simp add: sensitivity_map_def split: prod.splits sum.splits)
  then show ?thesis by (simp add: raw_sensitivity_frame)
qed

text \<open>
  Claim C1, as amended. For the sensor types \<open>grad\<close> and \<open>mag\<close>, a call with one of the
  modes \<open>angle\<close>, \<open>remaining\<close>, \<open>dampening\<close> and no projection list (\<^verbatim>\<open>projs=None\<close>)
  always fails and computes no map: with the error of an earlier check if one fails, and
  otherwise with the \<^verbatim>\<open>ValueError\<close> "No projectors used, cannot compute" followed by the
  mode. The store is left as it was.
\<close>

theorem no_projectors_is_rejected:
  assumes "ch_type = ''grad'' \<or> ch_type = ''mag''"
    and "mode \<in> set [''angle'', ''remaining'', ''dampening'']"
  shows "sensitivity_map ev h fwd None ch_type mode exclude =
           (h, Inl (case check_forward ev fwd of
                      Some e \<Rightarrow> e
                    | None \<Rightarrow>
                        (case limit_forward ev fwd ch_type exclude of
                           Inl e \<Rightarrow> e
                         | Inr fwd' \<Rightarrow>
                             ValueError (''No projectors used, cannot compute '' @ mode))))"
proof -
  have cs: "check_strings ch_type mode = None"
    using assms by (auto simp: check_strings_def)
  have ne: "ch_type \<noteq> ''eeg''" using assms(1) by auto
  show ?thesis
    using assms(2)
    by (simp add: sensitivity_map_def raw_sensitivity_def cs ne eeg_average_def
        construct_projector_def split: option.splits sum.splits)
qed

text \<open>
  Claim C2 does not hold of the code. A call with sensor type \<open>eeg\<close> that passes the checks
  and is given a list that already holds an average-reference projector does not proceed:
  line 303 reads \<^verbatim>\<open>eeg_ave\<close>, which line 302 did not bind, and the call ends with
  \<^verbatim>\<open>UnboundLocalError\<close>.
\<close>

theorem avref_list_raises_unbound:
  assumes "check_strings ''eeg'' mode = None" and "check_forward ev fwd = None"
    and "limit_forward ev fwd ''eeg'' exclude = Inr fwd'"
    and "has_average_ref ev (h ! a)"
  shows "sensitivity_map ev h fwd (Some a) ''eeg'' mode exclude =
           (h, Inl (UnboundLocalError ''local variable 'eeg_ave' referenced before assignment''))"
  using assms by (simp add: sensitivity_map_def raw_sensitivity_def eeg_average_def)

lemma np_sub_one_minus: "np_sub (Fin 1) x = one_minus x"
  by (cases x) (simp_all add: one_minus_def)

lemma map_err_related:
  assumes "\<And>x. g x = (case f x of Inl e \<Rightarrow> Inl e | Inr v \<Rightarrow> Inr (c v))"
  shows "map_err g xs = (case map_err f xs of Inl e \<Rightarrow> Inl e | Inr vs \<Rightarrow> Inr (map c vs))"
  by (induction xs) (simp_all add: assms split: sum.splits)

lemma location_value_radiality:
  "location_value ev ''radiality'' gain pu k =
     (case location_value ev ''ratio'' gain pu k of
        Inl e \<Rightarrow> Inl e | Inr v \<Rightarrow> Inr (one_minus v))"
  by (simp add: location_value_def Let_def np_sub_one_minus split: sum.splits)

lemma location_value_dampening:
  "location_value ev ''dampening'' gain pu k =
     (case location_value ev ''remaining'' gain pu k of
        Inl e \<Rightarrow> Inl e | Inr v \<Rightarrow> Inr (one_minus v))"
  by (simp add: location_value_def Let_def one_minus_def
      split: sum.splits option.splits prod.splits)

lemma check_strings_radiality: "check_strings ch_type ''radiality'' = check_strings ch_type ''ratio''"
  by (simp add: check_strings_def)

lemma check_strings_dampening: "check_strings ch_type ''dampening'' = check_strings ch_type ''remaining''"
  by (simp add: check_strings_def)

lemma construct_projector_radiality:
  "construct_projector ev h fwd projs ''radiality'' gain
     = construct_projector ev h fwd projs ''ratio'' gain"
  by (simp add: construct_projector_def split: option.splits sum.splits prod.splits)

lemma construct_projector_dampening:
  "construct_projector ev h fwd projs ''dampening'' gain =
     (case construct_projector ev h fwd projs ''remaining'' gain of
        Inl e \<Rightarrow> (if projs = None
                  then Inl (ValueError ''No projectors used, cannot compute dampening'')
                  else Inl e)
      | Inr r \<Rightarrow> Inr r)"
  by (simp add: construct_projector_def split: option.splits sum.splits prod.splits)

lemma map_err_radiality:
  "map_err (location_value ev ''radiality'' gain pu) ks =
     (case map_err (location_value ev ''ratio'' gain pu) ks of
        Inl e \<Rightarrow> Inl e | Inr vs \<Rightarrow> Inr (map one_minus vs))"
  by (rule map_err_related) (rule location_value_radiality)

lemma map_err_dampening:
  "map_err (location_value ev ''dampening'' gain pu) ks =
     (case map_err (location_value ev ''remaining'' gain pu) ks of
        Inl e \<Rightarrow> Inl e | Inr vs \<Rightarrow> Inr (map one_minus vs))"
  by (rule map_err_related) (rule location_value_dampening)

lemma raw_radiality:
  "raw_sensitivity ev h fwd projs ch_type ''radiality'' ex =
     (case raw_sensitivity ev h fwd projs ch_type ''ratio'' ex of
        (h', Inl e) \<Rightarrow> (h', Inl e)
      | (h', Inr (fwd', m)) \<Rightarrow> (h', Inr (fwd', map one_minus m)))"
  unfolding raw_sensitivity_def check_strings_radiality construct_projector_radiality
    map_err_radiality
  by (simp split: option.splits sum.splits prod.splits)

lemma raw_dampening:
  "(case raw_sensitivity ev h fwd projs ch_type ''remaining'' ex of
      (h', Inl e) \<Rightarrow> (\<exists>e'. raw_sensitivity ev h fwd projs ch_type ''dampening'' ex = (h', Inl e'))
    | (h', Inr (fwd', m)) \<Rightarrow>
        raw_sensitivity ev h fwd projs ch_type ''dampening'' ex
          = (h', Inr (fwd', map one_minus m)))"
  unfolding raw_sensitivity_def check_strings_dampening construct_projector_dampening
    map_err_dampening
  by (simp split: option.splits sum.splits prod.splits)

lemma build_stc_map:
  "build_stc ev fwd (map c m) =
     (case build_stc ev fwd m of
        Inl e \<Rightarrow> Inl e
      | Inr r \<Rightarrow> Inr (r\<lparr>stc_data := map (map c) (stc_data r)\<rparr>))"
  by (simp add: build_stc_def split: list.splits)

text \<open>
  Claim C3. For one forward model, projection list, sensor type and exclusion, the call
  with mode \<open>radiality\<close> returns the map of the call with mode \<open>ratio\<close> with each value
  \<open>v\<close> replaced by \<open>1 - v\<close>, and raises what that call raises; the call with mode
  \<open>dampening\<close> returns the map of the call with mode \<open>remaining\<close> with each value \<open>v\<close>
  replaced by \<open>1 - v\<close>, and fails when that call fails (as both do where the normal
  component of a location is zero).
\<close>

theorem complement_modes:
  "snd (sensitivity_map ev h fwd projs ch_type ''radiality'' ex) =
     (case snd (sensitivity_map ev h fwd projs ch_type ''ratio'' ex) of
        Inl e \<Rightarrow> Inl e
      | Inr r \<Rightarrow> Inr (r\<lparr>stc_data := map (map one_minus) (stc_data r)\<rparr>))
   \<and> (case snd (sensitivity_map ev h fwd projs ch_type ''remaining'' ex) of
        Inl e \<Rightarrow> (\<exists>e'. snd (sensitivity_map ev h fwd projs ch_type ''dampening'' ex) = Inl e')
      | Inr r \<Rightarrow>
          snd (sensitivity_map ev h fwd projs ch_type ''dampening'' ex)
            = Inr (r\<lparr>stc_data := map (map one_minus) (stc_data r)\<rparr>))"
proof
  show "snd (sensitivity_map ev h fwd projs ch_type ''radiality'' ex) =
     (case snd (sensitivity_map ev h fwd projs ch_type ''ratio'' ex) of
        Inl e \<Rightarrow> Inl e
      | Inr r \<Rightarrow> Inr (r\<lparr>stc_data := map (map one_minus) (stc_data r)\<rparr>))"
    unfolding sensitivity_map_def raw_radiality
    by (simp add: normalize_def build_stc_map split: prod.splits sum.splits)
next
  show "case snd (sensitivity_map ev h fwd projs ch_type ''remaining'' ex) of
        Inl e \<Rightarrow> (\<exists>e'. snd (sensitivity_map ev h fwd projs ch_type ''dampening'' ex) = Inl e')
      | Inr r \<Rightarrow>
          snd (sensitivity_map ev h fwd projs ch_type ''dampening'' ex)
            = Inr (r\<lparr>stc_data := map (map one_minus) (stc_data r)\<rparr>)"
    using raw_dampening[of ev h fwd projs ch_type ex]
    unfolding sensitivity_map_def
    by (auto simp: normalize_def build_stc_map split: prod.splits sum.splits)
qed

lemma foldl_np_max2_Fin: "foldl np_max2 (Fin a) (map Fin bs) = Fin (foldl max a bs)"
  by (induction bs arbitrary: a) simp_all

lemma foldl_max_ge: "a \<le> foldl max a (bs :: real list)"
  by (induction bs arbitrary: a) (auto intro: order_trans[OF max.cobounded1])

lemma foldl_max_upper: "b \<in> set bs \<Longrightarrow> b \<le> foldl max a (bs :: real list)"
proof (induction bs arbitrary: a)
  case Nil
  then show ?case by simp
next
  case (Cons c bs)
  show ?case
  proof (cases "b = c")
    case True
    have "c \<le> max a c" by simp
    also have "\<dots> \<le> foldl max (max a c) bs" by (rule foldl_max_ge)
    finally show ?thesis using True by simp
  next
    case False
    then have "b \<in> set bs" using Cons.prems by simp
    then show ?thesis using Cons.IH by simp
  qed
qed

lemma foldl_max_mem: "foldl max a (bs :: real list) \<in> set (a # bs)"
proof (induction bs arbitrary: a)
  case Nil
  then show ?case by simp
next
  case (Cons c bs)
  have "foldl max (max a c) bs \<in> set (max a c # bs)" by (rule Cons.IH)
  moreover have "max a c = a \<or> max a c = c" by (simp add: max_def)
  ultimately show ?case by auto
qed

lemma foldl_max_scale:
  "0 < M \<Longrightarrow> foldl max (a / M) (map (\<lambda>v. v / M) bs) = foldl max a bs / (M :: real)"
proof (induction bs arbitrary: a)
  case Nil
  then show ?case by simp
next
  case (Cons c bs)
  have "max (a / M) (c / M) = max a c / M"
    using Cons.prems by (simp add: max_def divide_le_cancel)
  then show ?case using Cons by simp
qed

lemma normalize_nonneg:
  assumes "list_all (\<lambda>x. 0 \<le> x) vs" and "np_max (map Fin vs) = Inr mx"
  shows "list_all (\<lambda>x. x = NaN) (map (\<lambda>x. np_truediv x mx) (map Fin vs))
         \<or> (np_max (map (\<lambda>x. np_truediv x mx) (map Fin vs)) = Inr (Fin 1)
            \<and> list_all in_unit (map (\<lambda>x. np_truediv x mx) (map Fin vs)))"
proof -
  from assms(2) obtain a bs where vs: "vs = a # bs"
    by (cases vs) (auto simp: np_max_def)
  define M where "M = foldl max a bs"
  have mx: "mx = Fin M"
    using assms(2) by (simp add: vs np_max_def foldl_np_max2_Fin M_def)
  have upper: "v \<le> M" if "v \<in> set vs" for v
    using that foldl_max_ge[of a bs] foldl_max_upper[of v bs a] by (auto simp: vs M_def)
  have nonneg: "0 \<le> v" if "v \<in> set vs" for v
    using assms(1) that by (simp add: list_all_iff)
  have mem: "M \<in> set vs" using foldl_max_mem[of a bs] by (simp add: vs M_def)
  show ?thesis
  proof (cases "M = 0")
    case True
    have "v = 0" if "v \<in> set vs" for v
      using upper[OF that] nonneg[OF that] True by simp
    then have "list_all (\<lambda>x. x = NaN) (map (\<lambda>x. np_truediv x mx) (map Fin vs))"
      by (simp add: list_all_iff mx True)
    then show ?thesis ..
  next
    case False
    then have pos: "0 < M" using nonneg[OF mem] by simp
    have out: "map (\<lambda>x. np_truediv x mx) (map Fin vs) = map Fin (map (\<lambda>v. v / M) vs)"
      using False by (simp add: mx)
    have sc: "foldl max (a / M) (map (\<lambda>v. v / M) bs) = M / M"
      using foldl_max_scale[OF pos, of a bs] unfolding M_def[symmetric] .
    have "np_max (map Fin (map (\<lambda>v. v / M) vs))
            = Inr (foldl np_max2 (Fin (a / M)) (map Fin (map (\<lambda>v. v / M) bs)))"
      by (simp add: vs np_max_def)
    also have "\<dots> = Inr (Fin (M / M))"
      unfolding foldl_np_max2_Fin sc by (rule refl)
    also have "\<dots> = Inr (Fin 1)" using pos by simp
    finally have "np_max (map Fin (map (\<lambda>v. v / M) vs)) = Inr (Fin 1)" .
    moreover have "list_all in_unit (map Fin (map (\<lambda>v. v / M) vs))"
      using pos upper nonneg by (auto simp: list_all_iff in_unit_def)
    ultimately show ?thesis unfolding out by blast
  qed
qed

lemma linalg_norm_nonneg: "0 \<le> linalg_norm v"
  unfolding linalg_norm_def dotp_def
  by (rule real_sqrt_ge_zero, induction v) simp_all

lemma location_value_fixed:
  "location_value ev ''fixed'' gain pu k = Inr v \<Longrightarrow> \<exists>x. v = Fin x \<and> 0 \<le> x"
  by (auto simp: location_value_def Let_def linalg_norm_nonneg)

lemma location_value_free:
  assumes "svd_s_contract (linalg_svd_s ev)" "location_value ev ''free'' gain pu k = Inr v"
  shows "\<exists>x. v = Fin x \<and> 0 \<le> x"
proof -
  have "list_all (\<lambda>x. 0 \<le> x) (linalg_svd_s ev (take 3 (drop (3 * k) gain)))"
    using assms(1) by (simp add: svd_s_contract_def)
  then show ?thesis
    using assms(2)
    by (auto simp: location_value_def Let_def first_singular_def split: list.splits sum.splits)
qed

lemma map_err_all:
  assumes "\<And>k v. f k = Inr v \<Longrightarrow> \<exists>x. v = Fin x \<and> 0 \<le> x" and "map_err f ks = Inr m"
  shows "\<exists>vs. m = map Fin vs \<and> list_all (\<lambda>x. 0 \<le> x) vs"
  using assms(2)
proof (induction ks arbitrary: m)
  case Nil
  then show ?case by simp
next
  case (Cons k ks)
  from Cons.prems obtain v m' where v: "f k = Inr v" and m': "map_err f ks = Inr m'"
    and m: "m = v # m'" by (auto split: sum.splits)
  from assms(1)[OF v] obtain x where x: "v = Fin x" "0 \<le> x" by blast
  from Cons.IH[OF m'] obtain vs where vs: "m' = map Fin vs" "list_all (\<lambda>x. 0 \<le> x) vs" by blast
  have "m = map Fin (x # vs) \<and> list_all (\<lambda>x. 0 \<le> x) (x # vs)" using m x vs by simp
  then show ?case by blast
qed

lemma raw_sensitivity_Inr:
  assumes "snd (raw_sensitivity ev h fwd projs ch_type mode ex) = Inr (fwd', m)"
  shows "\<exists>gain pu. map_err (location_value ev mode gain pu) [0..<length gain div 3] = Inr m"
  using assms
  by (auto simp: raw_sensitivity_def split: option.splits sum.splits prod.splits)

lemma raw_fixed_free_nonneg:
  assumes "svd_s_contract (linalg_svd_s ev)" and "mode = ''fixed'' \<or> mode = ''free''"
    and "snd (raw_sensitivity ev h fwd projs ch_type mode ex) = Inr (fwd', m)"
  shows "\<exists>vs. m = map Fin vs \<and> list_all (\<lambda>x. 0 \<le> x) vs"
proof -
  from raw_sensitivity_Inr[OF assms(3)] obtain gain pu where
    me: "map_err (location_value ev mode gain pu) [0..<length gain div 3] = Inr m" by blast
  have step: "\<exists>x. v = Fin x \<and> 0 \<le> x" if "location_value ev mode gain pu k = Inr v" for k v
    using assms(2) that location_value_fixed location_value_free[OF assms(1)] by blast
  show ?thesis by (rule map_err_all[OF step me])
qed

lemma sensitivity_map_Inr:
  assumes "snd (sensitivity_map ev h fwd projs ch_type mode ex) = Inr r"
  shows "\<exists>fwd' m m'. snd (raw_sensitivity ev h fwd projs ch_type mode ex) = Inr (fwd', m)
           \<and> normalize mode m = Inr m' \<and> stc_data r = map (\<lambda>x. [x]) m'"
  using assms
  by (auto simp: sensitivity_map_def build_stc_def split: prod.splits sum.splits list.splits)

lemma concat_singletons: "concat (map (\<lambda>x. [x]) m) = m"
  by (induction m) simp_all

text \<open>
  Claim C4, as amended. Singular values are not negative. A call that returns with mode
  \<open>fixed\<close> or \<open>free\<close> returns the map of lines 275 to 346 divided by its maximum; then
  either every value is NaN, which is the case when that maximum is 0, or the maximum of
  the returned map is 1 and every value lies between 0 and 1. With one of the other five
  modes the returned map is the map of lines 275 to 346 as it is.
\<close>

theorem fixed_free_normalized:
  assumes "svd_s_contract (linalg_svd_s ev)"
    and "snd (sensitivity_map ev h fwd projs ch_type mode ex) = Inr r"
  shows "(mode \<in> set [''fixed'', ''free''] \<longrightarrow>
            (\<exists>fwd' m mx. snd (raw_sensitivity ev h fwd projs ch_type mode ex) = Inr (fwd', m)
                \<and> np_max m = Inr mx \<and> stc_data r = map (\<lambda>x. [np_truediv x mx]) m)
            \<and> (list_all (\<lambda>x. x = NaN) (concat (stc_data r))
               \<or> (np_max (concat (stc_data r)) = Inr (Fin 1)
                  \<and> list_all in_unit (concat (stc_data r)))))
       \<and> (mode \<notin> set [''fixed'', ''free''] \<longrightarrow>
            (\<exists>fwd' m. snd (raw_sensitivity ev h fwd projs ch_type mode ex) = Inr (fwd', m)
                \<and> stc_data r = map (\<lambda>x. [x]) m))"
proof -
  from sensitivity_map_Inr[OF assms(2)] obtain fwd' m m' where
    raw: "snd (raw_sensitivity ev h fwd projs ch_type mode ex) = Inr (fwd', m)"
    and nm: "normalize mode m = Inr m'" and dat: "stc_data r = map (\<lambda>x. [x]) m'" by blast
  show ?thesis
  proof (cases "mode \<in> set [''fixed'', ''free'']")
    case True
    then have md: "mode = ''fixed'' \<or> mode = ''free''" by auto
    from nm True obtain mx where mx: "np_max m = Inr mx"
      and m': "m' = map (\<lambda>x. np_truediv x mx) m"
      by (auto simp: normalize_def split: sum.splits)
    from raw_fixed_free_nonneg[OF assms(1) md raw] obtain vs where
      vs: "m = map Fin vs" "list_all (\<lambda>x. 0 \<le> x) vs" by blast
    have d1: "stc_data r = map (\<lambda>x. [np_truediv x mx]) m" by (simp add: dat m' comp_def)
    have d2: "concat (stc_data r) = map (\<lambda>x. np_truediv x mx) (map Fin vs)"
      unfolding dat concat_singletons m' vs(1) by (rule refl)
    have "list_all (\<lambda>x. x = NaN) (concat (stc_data r))
          \<or> (np_max (concat (stc_data r)) = Inr (Fin 1) \<and> list_all in_unit (concat (stc_data r)))"
      unfolding d2 by (rule normalize_nonneg[OF vs(2) mx[unfolded vs(1)]])
    then show ?thesis using True raw mx d1 by blast
  next
    case False
    then have "m' = m" using nm by (simp add: normalize_def)
    then show ?thesis using False raw dat by blast
  qed
qed

subsection \<open>Concrete calls\<close>

lemmas sm_eval = sensitivity_map_def raw_sensitivity_def check_strings_def check_forward_def
  limit_forward_def eeg_average_def construct_projector_def location_value_def normalize_def
  build_stc_def env_spec_def pick_types_forward_spec_def select_def kind_selected_def
  make_eeg_average_ref_proj_spec_def make_projector_spec_def spread_def svd_s_rank1_def
  pick_types_spec_def has_average_ref_def alloc_def np_dot_mv_def np_dot_vm_def np_dot_cols_def
  first_singular_def linalg_norm_def py_float_div_def dotp_def np_max_def np_T_def Let_def
  fwd_grad_def fwd_grad_flat_def fwd_eeg_def avref2_def ssp_meg_def mk_proj_def this_desc_def
  fmt_02d_def

lemma two: "[0..<2] = [0, 1]" by (simp add: upt_rec)

lemma four: "[0..<4] = [0, 1, 2, 3]" by (simp add: upt_rec)

lemma sqrt_squares: "sqrt 16 = 4" "sqrt 25 = 5" "sqrt 36 = 6" "sqrt 100 = 10"
  using real_sqrt_abs2[of 4] real_sqrt_abs2[of 5] real_sqrt_abs2[of 6] real_sqrt_abs2[of 10]
  by simp_all

text \<open>
  The claim C1 as stated fails for the sensor type \<open>eeg\<close> with no list, where the
  average-reference vector is synthesized first, and for an empty list, which is not
  \<^verbatim>\<open>None\<close>: both calls return a map.
\<close>

theorem no_projectors_counterexample:
  "sensitivity_map env_spec [] fwd_eeg None ''eeg'' ''remaining'' (ExcludeList [])
     = ([[avref2]],
        Inr \<lparr>stc_data = [[Fin 1]], vertices = [[7], []], tmin = 0, tstep = 1, subject = None\<rparr>)
   \<and> sensitivity_map env_spec [[]] fwd_grad (Some 0) ''grad'' ''remaining'' (ExcludeList [])
     = ([[]],
        Inr \<lparr>stc_data = [[Fin 1], [Fin 1]], vertices = [[10, 20], []], tmin = 0, tstep = 1,
             subject = Some ''sample''\<rparr>)"
  by (simp add: sm_eval two)

theorem no_projectors_is_rejected_witness:
  "sensitivity_map env_spec [] fwd_grad None ''grad'' ''angle'' ExcludeBads
     = ([], Inl (ValueError ''No projectors used, cannot compute angle''))"
proof -
  have a: "''grad'' = ''grad'' \<or> ''grad'' = ''mag''" by simp
  have b: "''angle'' \<in> set [''angle'', ''remaining'', ''dampening'']" by simp
  show ?thesis
    using no_projectors_is_rejected[OF a b, of env_spec "[]" fwd_grad ExcludeBads]
    by (simp add: check_forward_def limit_forward_def env_spec_def pick_types_forward_spec_def
        fwd_grad_def Let_def)
qed

theorem avref_list_raises_unbound_witness:
  "sensitivity_map env_spec [[avref2]] fwd_eeg (Some 0) ''eeg'' ''fixed'' (ExcludeList [])
     = ([[avref2]],
        Inl (UnboundLocalError ''local variable 'eeg_ave' referenced before assignment''))"
proof -
  have a: "check_strings ''eeg'' ''fixed'' = None" by (simp add: check_strings_def)
  have b: "check_forward env_spec fwd_eeg = None"
    by (simp add: check_forward_def env_spec_def fwd_eeg_def)
  have c: "limit_forward env_spec fwd_eeg ''eeg'' (ExcludeList [])
             = Inr (fwd_eeg\<lparr>sol_data := sol_data fwd_eeg\<rparr>)"
    by (simp add: limit_forward_def env_spec_def pick_types_forward_spec_def fwd_eeg_def
        select_def kind_selected_def Let_def)
  have d: "has_average_ref env_spec ([[avref2]] ! 0)"
    by (simp add: has_average_ref_def env_spec_def avref2_def)
  show ?thesis by (rule avref_list_raises_unbound[OF a b c d])
qed

theorem complement_modes_witness:
  "snd (sensitivity_map env_spec [] fwd_grad_345 None ''grad'' ''ratio'' ExcludeBads)
     = Inr \<lparr>stc_data = [[Fin (4 / 5)], [Fin 1]], vertices = [[10, 20], []], tmin = 0,
            tstep = 1, subject = Some ''sample''\<rparr>
   \<and> snd (sensitivity_map env_spec [] fwd_grad_345 None ''grad'' ''radiality'' ExcludeBads)
     = Inr \<lparr>stc_data = [[Fin (1 / 5)], [Fin 0]], vertices = [[10, 20], []], tmin = 0,
            tstep = 1, subject = Some ''sample''\<rparr>
   \<and> snd (sensitivity_map env_spec [] fwd_eeg4 None ''eeg'' ''remaining'' ExcludeBads)
     = Inr \<lparr>stc_data = [[Fin (3 / 5)]], vertices = [[7], []], tmin = 0, tstep = 1,
            subject = None\<rparr>
   \<and> snd (sensitivity_map env_spec [] fwd_eeg4 None ''eeg'' ''dampening'' ExcludeBads)
     = Inr \<lparr>stc_data = [[Fin (2 / 5)]], vertices = [[7], []], tmin = 0, tstep = 1,
            subject = None\<rparr>
   \<and> snd (sensitivity_map env_spec [[]] fwd_grad_flat (Some 0) ''grad'' ''remaining''
            ExcludeBads)
     = Inl (ZeroDivisionError ''float division by zero'')
   \<and> (\<exists>e. snd (sensitivity_map env_spec [[]] fwd_grad_flat (Some 0) ''grad'' ''dampening''
                  ExcludeBads) = Inl e)"
proof -
  have r: "snd (sensitivity_map env_spec [] fwd_grad_345 None ''grad'' ''ratio'' ExcludeBads)
     = Inr \<lparr>stc_data = [[Fin (4 / 5)], [Fin 1]], vertices = [[10, 20], []], tmin = 0,
            tstep = 1, subject = Some ''sample''\<rparr>"
    by (simp add: sm_eval two fwd_grad_345_def sqrt_squares)
  have m: "snd (sensitivity_map env_spec [] fwd_eeg4 None ''eeg'' ''remaining'' ExcludeBads)
     = Inr \<lparr>stc_data = [[Fin (3 / 5)]], vertices = [[7], []], tmin = 0, tstep = 1,
            subject = None\<rparr>"
    by (simp add: sm_eval four fwd_eeg4_def sqrt_squares real_sqrt_divide)
  have z: "snd (sensitivity_map env_spec [[]] fwd_grad_flat (Some 0) ''grad'' ''remaining''
            ExcludeBads)
     = Inl (ZeroDivisionError ''float division by zero'')"
    by (simp add: sm_eval)
  show ?thesis
    using complement_modes[of env_spec "[]" fwd_grad_345 None "''grad''" ExcludeBads]
      complement_modes[of env_spec "[]" fwd_eeg4 None "''eeg''" ExcludeBads]
      complement_modes[of env_spec "[[]]" fwd_grad_flat "Some 0" "''grad''" ExcludeBads]
    by (simp add: r m z one_minus_def)
qed

text \<open>
  The claim C4 as stated fails where every location has a zero normal component: the
  maximum is 0 and the division gives NaN, not a value between 0 and 1.
\<close>

theorem fixed_free_counterexample:
  "snd (sensitivity_map env_spec [] fwd_grad_flat None ''grad'' ''fixed'' ExcludeBads)
     = Inr \<lparr>stc_data = [[NaN]], vertices = [[10], []], tmin = 0, tstep = 1,
            subject = Some ''sample''\<rparr>
   \<and> np_max [NaN] \<noteq> Inr (Fin 1) \<and> \<not> in_unit NaN"
  by (simp add: sm_eval in_unit_def)

lemma dotp_self_nonneg: "0 \<le> dotp v v"
  by (induction v) (simp_all add: dotp_def)

lemma sum_dotp_self_nonneg: "0 \<le> sum_list (map (\<lambda>c. dotp c c) cols)"
  by (rule sum_list_nonneg) (auto simp: dotp_self_nonneg)

lemma svd_s_rank1_contract: "svd_s_contract svd_s_rank1"
  using sum_dotp_self_nonneg
  by (auto simp: svd_s_contract_def svd_s_rank1_def list_all_iff dotp_self_nonneg
      split: list.splits intro!: add_nonneg_nonneg)

theorem fixed_free_normalized_witness:
  "svd_s_contract (linalg_svd_s env_spec)
   \<and> snd (sensitivity_map env_spec [] fwd_grad None ''grad'' ''fixed'' ExcludeBads)
     = Inr \<lparr>stc_data = [[Fin 1], [Fin (1 / 2)]], vertices = [[10, 20], []], tmin = 0,
            tstep = 1, subject = Some ''sample''\<rparr>
   \<and> np_max [Fin 1, Fin (1 / 2)] = Inr (Fin 1)
   \<and> list_all in_unit [Fin 1, Fin (1 / 2)]
   \<and> snd (raw_sensitivity env_spec [] fwd_grad None ''grad'' ''fixed'' ExcludeBads)
     = Inr (fwd_grad, [Fin 2, Fin 1])"
proof -
  have c: "svd_s_contract (linalg_svd_s env_spec)"
    using svd_s_rank1_contract by (simp add: env_spec_def)
  have e: "snd (sensitivity_map env_spec [] fwd_grad None ''grad'' ''fixed'' ExcludeBads)
     = Inr \<lparr>stc_data = [[Fin 1], [Fin (1 / 2)]], vertices = [[10, 20], []], tmin = 0,
            tstep = 1, subject = Some ''sample''\<rparr>"
    by (simp add: sm_eval two)
  have raw: "snd (raw_sensitivity env_spec [] fwd_grad None ''grad'' ''fixed'' ExcludeBads)
     = Inr (fwd_grad, [Fin 2, Fin 1])"
    by (simp add: sm_eval two)
  show ?thesis
    using fixed_free_normalized[OF c e] c e raw by (simp add: np_max_def in_unit_def)
qed

theorem caller_list_not_mutated_witness:
  "fst (sensitivity_map env_spec [[ssp_meg]] fwd_eeg (Some 0) ''eeg'' ''fixed'' ExcludeBads)
     = [[ssp_meg], [avref2], [ssp_meg, avref2]]
   \<and> take 1 (fst (sensitivity_map env_spec [[ssp_meg]] fwd_eeg (Some 0) ''eeg'' ''fixed''
                    ExcludeBads)) = [[ssp_meg]]"
proof -
  have e: "fst (sensitivity_map env_spec [[ssp_meg]] fwd_eeg (Some 0) ''eeg'' ''fixed''
                 ExcludeBads) = [[ssp_meg], [avref2], [ssp_meg, avref2]]"
    by (simp add: sm_eval)
  show ?thesis
    using caller_list_not_mutated[of "[[ssp_meg]]" env_spec fwd_eeg "Some 0" "''eeg''"
        "''fixed''" ExcludeBads] e
    by simp
qed

end
